theory Spec2Isabelle
  imports Complex_Main "HOL-Library.Log_Nat" "HOL-Library.Multiset" "HOL-Library.List_Lexorder"
    "HOL-Library.AList"
begin

text \<open>
  The Multibrand Token Exporter, a Figma plugin: the colour encoding and the token tree of
  utils.ts, the alias resolution of resolve.ts and the export of export.ts, as functions
  of the document that the host holds, followed by the properties that the specification
  states of them.
\<close>

section \<open>Strings\<close>

text \<open>
  A JavaScript string is a sequence of UTF-16 code units; a code unit is modelled as a
  natural number. \<open>str\<close> embeds an ASCII literal. Names can hold any code unit (the
  provenance separator of the resolver is U+2192, the notifications start with U+23F3
  and U+2705), so the 8-bit characters of HOL are not used for them.
\<close>

type_synonym jsstring = "nat list"

definition str :: "string \<Rightarrow> jsstring" where
  "str s = map of_char s"

section \<open>The token tree (src/core/utils.ts, src/core/export.ts)\<close>

text \<open>
  \<open>ColorResult\<close> of resolve.ts; the object built by \<open>resolveBrandColors\<close> (at most the
  two properties \<open>light\<close> and \<open>dark\<close>); \<open>TokenObject\<close> of export.ts, whose constant
  \<open>type: "token"\<close> is the constructor \<open>Token\<close> below. \<open>modes\<close> is the object keyed by
  brand name.
\<close>

record ColorResult =
  hex :: jsstring
  primitiveName :: jsstring

record BrandResult =
  light :: "ColorResult option"
  dark :: "ColorResult option"

record TokenObject =
  name :: jsstring
  path :: jsstring
  modes :: "jsstring \<rightharpoonup> BrandResult"

text \<open>
  An entry of a \<open>children\<close> array: a token, or the group object
  \<open>{ name, type: "group", children }\<close> that \<open>insertTokenIntoTree\<close> creates.
\<close>

datatype item = Token TokenObject | Group jsstring "item list"

fun is_group :: "item \<Rightarrow> bool" where
  "is_group (Group n cs) = True"
| "is_group (Token t) = False"

fun item_name :: "item \<Rightarrow> jsstring" where
  "item_name (Group n cs) = n"
| "item_name (Token t) = name t"

subsection \<open>insertTokenIntoTree\<close>

text \<open>
  The source walks \<open>folders\<close> with a cursor \<open>currentLevel\<close> into the mutable tree:
  \<open>currentLevel.find(item => item.name === folderName && item.type === 'group')\<close>
  selects the first group of that name; when there is none, a group with no children is
  pushed at the end of the level; the cursor moves to the children of the group; after
  the loop the token is pushed at the cursor. The token objects inserted are fresh
  objects without children, so the arrays reached by the cursor are exactly the ones on
  the path, and the mutation is the functional update below: \<open>descend f k level\<close> is the
  level after the rest of the walk \<open>k\<close> has run on the children of the group \<open>f\<close>.
\<close>

fun descend :: "jsstring \<Rightarrow> (item list \<Rightarrow> item list) \<Rightarrow> item list \<Rightarrow> item list" where
  "descend folderName k [] = [Group folderName (k [])]"
| "descend folderName k (Group n cs # rest) =
     (if n = folderName then Group n (k cs) # rest
      else Group n cs # descend folderName k rest)"
| "descend folderName k (Token t # rest) = Token t # descend folderName k rest"

fun insertTokenIntoTree :: "item list \<Rightarrow> jsstring list \<Rightarrow> TokenObject \<Rightarrow> item list" where
  "insertTokenIntoTree currentLevel [] tokenObj = currentLevel @ [Token tokenObj]"
| "insertTokenIntoTree currentLevel (folderName # folders) tokenObj =
     descend folderName (\<lambda>children. insertTokenIntoTree children folders tokenObj) currentLevel"

subsection \<open>sortTokensAlphabetically\<close>

text \<open>
  \<open>Array.prototype.sort\<close> with a comparison function: for a consistent comparison
  function the result is the stable sorted permutation, which is what insertion from
  the right computes (an element goes before the first element it does not follow).
\<close>

fun insert_sorted :: "('a \<Rightarrow> 'a \<Rightarrow> int) \<Rightarrow> 'a \<Rightarrow> 'a list \<Rightarrow> 'a list" where
  "insert_sorted cmp x [] = [x]"
| "insert_sorted cmp x (y # ys) =
     (if cmp x y \<le> 0 then x # y # ys else y # insert_sorted cmp x ys)"

definition array_sort :: "('a \<Rightarrow> 'a \<Rightarrow> int) \<Rightarrow> 'a list \<Rightarrow> 'a list" where
  "array_sort cmp xs = foldr (insert_sorted cmp) xs []"

text \<open>
  The comparison function of the source. \<open>localeCompare\<close> is the host's
  \<open>String.prototype.localeCompare\<close>; it is a parameter.
\<close>

definition compareItems :: "(jsstring \<Rightarrow> jsstring \<Rightarrow> int) \<Rightarrow> item \<Rightarrow> item \<Rightarrow> int" where
  "compareItems localeCompare a b =
     (if is_group a \<and> \<not> is_group b then - 1
      else if \<not> is_group a \<and> is_group b then 1
      else localeCompare (item_name a) (item_name b))"

fun sortTokensAlphabetically :: "(jsstring \<Rightarrow> jsstring \<Rightarrow> int) \<Rightarrow> item list \<Rightarrow> item list"
  and sortChildren :: "(jsstring \<Rightarrow> jsstring \<Rightarrow> int) \<Rightarrow> item \<Rightarrow> item" where
  "sortTokensAlphabetically localeCompare items =
     array_sort (compareItems localeCompare) (map (sortChildren localeCompare) items)"
| "sortChildren localeCompare (Group n children) =
     Group n (sortTokensAlphabetically localeCompare children)"
| "sortChildren localeCompare (Token t) = Token t"

section \<open>Numbers and colours (src/core/utils.ts)\<close>

text \<open>
  A JavaScript number is an IEEE 754 binary64 value: NaN, an infinity, or a finite value,
  which is a rational number (the two zeros are not told apart: no operation used here
  distinguishes them). The same shape with an integer inside is the result of
  \<open>Math.round\<close>.
\<close>

datatype 'a ieee = NaN | PosInf | NegInf | Fin 'a

type_synonym number = "rat ieee"

text \<open>
  Rounding a rational to binary64, ties to even: \<open>floor_log2 x\<close> is the exponent of the
  binade of a positive \<open>x\<close> (the bit lengths of numerator and denominator bound it within
  one), the spacing of the doubles there is \<open>2 ^ (e - 52)\<close>, with the exponent not below
  that of the subnormals, and a result of \<open>2 ^ 1024\<close> or more is an infinity.
\<close>

definition floor_log2 :: "rat \<Rightarrow> int" where
  "floor_log2 x =
     (let d = bitlen (fst (quotient_of x)) - bitlen (snd (quotient_of x))
      in if 2 powi d \<le> x then d else d - 1)"

definition round_half_even :: "rat \<Rightarrow> int" where
  "round_half_even x =
     (let n = \<lfloor>x\<rfloor>; f = x - of_int n
      in if f < 1 / 2 then n else if 1 / 2 < f then n + 1 else if even n then n else n + 1)"

definition to_double :: "rat \<Rightarrow> number" where
  "to_double x =
     (if x = 0 then Fin 0
      else let e = max (floor_log2 \<bar>x\<bar>) (- 1022);
               ulp = 2 powi (e - 52);
               y = of_int (round_half_even (\<bar>x\<bar> / ulp)) * ulp
           in if 2 powi 1024 \<le> y then (if x < 0 then NegInf else PosInf)
              else Fin (sgn x * y))"

text \<open>The product \<open>v * 255\<close>, the comparison \<open>v < 1\<close> and \<open>Math.round(v)\<close>.\<close>

fun times255 :: "number \<Rightarrow> number" where
  "times255 (Fin x) = to_double (x * 255)"
| "times255 NaN = NaN"
| "times255 PosInf = PosInf"
| "times255 NegInf = NegInf"

fun less_than_1 :: "number \<Rightarrow> bool" where
  "less_than_1 (Fin x) = (x < 1)"
| "less_than_1 NaN = False"
| "less_than_1 PosInf = False"
| "less_than_1 NegInf = True"

fun Math_round :: "number \<Rightarrow> int ieee" where
  "Math_round (Fin x) = Fin \<lfloor>x + 1 / 2\<rfloor>"
| "Math_round NaN = NaN"
| "Math_round PosInf = PosInf"
| "Math_round NegInf = NegInf"

text \<open>\<open>Number.prototype.toString(16)\<close> of a \<open>Math.round\<close> result.\<close>

definition hex_digit :: "nat \<Rightarrow> nat" where
  "hex_digit d = (if d < 10 then 48 + d else 87 + d)"

fun hex_digits :: "nat \<Rightarrow> jsstring" where
  "hex_digits n =
     (if n < 16 then [hex_digit n] else hex_digits (n div 16) @ [hex_digit (n mod 16)])"

fun toString16 :: "int ieee \<Rightarrow> jsstring" where
  "toString16 (Fin i) = (if i < 0 then str ''-'' else []) @ hex_digits (nat \<bar>i\<bar>)"
| "toString16 NaN = str ''NaN''"
| "toString16 PosInf = str ''Infinity''"
| "toString16 NegInf = str ''-Infinity''"

text \<open>
  \<open>String.prototype.toUpperCase\<close>, on the code units it is applied to: the source
  uppercases \<open>#\<close> followed by \<open>toHex\<close> results, which are ASCII.
\<close>

definition toUpperCase :: "jsstring \<Rightarrow> jsstring" where
  "toUpperCase s = map (\<lambda>c. if 97 \<le> c \<and> c \<le> 122 then c - 32 else c) s"

text \<open>The host's \<open>RGBA\<close> (and \<open>RGB\<close>, which has no \<open>a\<close>): \<open>{ r, g, b, a? }\<close>.\<close>

record RGBA =
  rgba_r :: number
  rgba_g :: number
  rgba_b :: number
  rgba_a :: "number option"

definition toHex :: "number \<Rightarrow> jsstring" where
  "toHex v =
     (let hex = toString16 (Math_round (times255 v))
      in if length hex = 1 then str ''0'' @ hex else hex)"

definition rgbaToHex :: "RGBA \<Rightarrow> jsstring" where
  "rgbaToHex c =
     (let r = toHex (rgba_r c); g = toHex (rgba_g c); b = toHex (rgba_b c)
      in case rgba_a c of
           Some alpha \<Rightarrow>
             if less_than_1 alpha then toUpperCase (str ''#'' @ r @ g @ b @ toHex alpha)
             else toUpperCase (str ''#'' @ r @ g @ b)
         | None \<Rightarrow> toUpperCase (str ''#'' @ r @ g @ b))"

section \<open>The host's variables (Figma plugin API)\<close>

text \<open>
  \<open>VariableValue\<close> of the plugin API: a boolean, a number, a string, a colour or the
  alias object \<open>{ type: "VARIABLE_ALIAS", id }\<close>. A \<open>valuesByMode\<close> object is the list of
  its properties in enumeration order, with distinct keys; reading a property that is
  absent gives \<open>undefined\<close>, here \<open>None\<close> (a mode identifier is generated by the host
  and is not the name of a member of \<open>Object.prototype\<close>).
\<close>

datatype VariableValue =
  VBoolean bool | VNumber number | VString jsstring | VColor RGBA | VAlias jsstring

datatype VariableResolvedDataType = BOOLEAN | COLOR | FLOAT | STRING

record Variable =
  var_id :: jsstring
  var_name :: jsstring
  resolvedType :: VariableResolvedDataType
  variableCollectionId :: jsstring
  valuesByMode :: "(jsstring \<times> VariableValue) list"

record Mode =
  modeId :: jsstring
  mode_name :: jsstring

record VariableCollection =
  coll_id :: jsstring
  coll_name :: jsstring
  coll_modes :: "Mode list"

datatype 'a promise = Fulfilled 'a | Rejected

text \<open>An error object that is thrown, with its \<open>message\<close>.\<close>

datatype js_error = Error jsstring

text \<open>
  What the code reads from its environment. The lookups of the plugin API are functions
  of the document, which the export does not change; \<open>getVariableCollectionByIdAsync\<close>
  may reject, which \<open>findMatchingMode\<close> catches. \<open>String.prototype.toLowerCase\<close> and
  \<open>String.prototype.localeCompare\<close> belong to the JavaScript engine (Unicode case
  mapping, the collation of the locale), and the two readings of the clock in
  \<open>createExportMetadata\<close> are \<open>new Date().toISOString()\<close> and \<open>Date.now()\<close>.
  \<open>figma.notify\<close> is documented for a string; \<open>notify_undefined\<close> is what the host does
  when it is called with \<open>undefined\<close>: it returns (\<open>None\<close>) or throws the given error.
\<close>

record host =
  getVariableByIdAsync :: "jsstring \<Rightarrow> Variable option"
  getVariableCollectionByIdAsync :: "jsstring \<Rightarrow> VariableCollection option promise"
  getLocalVariableCollectionsAsync :: "VariableCollection list"
  getLocalVariablesAsync :: "Variable list"
  String_toLowerCase :: "jsstring \<Rightarrow> jsstring"
  String_localeCompare :: "jsstring \<Rightarrow> jsstring \<Rightarrow> int"
  Date_toISOString :: jsstring
  Date_now :: int
  notify_undefined :: "js_error option"

definition object_get :: "('k \<times> 'v) list \<Rightarrow> 'k \<Rightarrow> 'v option" where
  "object_get obj k = map_of obj k"

definition Object_keys :: "('k \<times> 'v) list \<Rightarrow> 'k list" where
  "Object_keys obj = map fst obj"

text \<open>JavaScript truthiness of a value that was read (\<open>undefined\<close> is falsy).\<close>

fun truthy :: "VariableValue \<Rightarrow> bool" where
  "truthy (VBoolean v) = v"
| "truthy (VNumber n) = (n \<noteq> NaN \<and> n \<noteq> Fin 0)"
| "truthy (VString s) = (s \<noteq> [])"
| "truthy (VColor c) = True"
| "truthy (VAlias i) = True"

text \<open>\<open>String.prototype.includes\<close>.\<close>

fun startsWith :: "jsstring \<Rightarrow> jsstring \<Rightarrow> bool" where
  "startsWith s [] = True"
| "startsWith [] (c # sub) = False"
| "startsWith (d # s) (c # sub) = (d = c \<and> startsWith s sub)"

fun String_includes :: "jsstring \<Rightarrow> jsstring \<Rightarrow> bool" where
  "String_includes [] sub = startsWith [] sub"
| "String_includes (d # s) sub = (startsWith (d # s) sub \<or> String_includes s sub)"

section \<open>Colour resolution (resolve.ts)\<close>

text \<open>\<open>parseColorValue\<close> of utils.ts: an object with a property \<open>r\<close> is a colour.\<close>

fun parseColorValue :: "VariableValue option \<Rightarrow> jsstring" where
  "parseColorValue (Some (VColor c)) = rgbaToHex c"
| "parseColorValue v = str ''#000000''"

fun isVariableAlias :: "VariableValue option \<Rightarrow> bool" where
  "isVariableAlias (Some (VAlias i)) = True"
| "isVariableAlias v = False"

definition createFallbackResult :: "jsstring \<Rightarrow> ColorResult" where
  "createFallbackResult primitiveName' = \<lparr>hex = str ''#FF00FF'', primitiveName = primitiveName'\<rparr>"

text \<open>
  \<open>resolveVariableValue\<close>: \<open>None\<close> is the source's \<open>null\<close>. The suffix is added for a
  truthy \<open>modeName\<close>, that is one that is given and not empty.
\<close>

definition resolveVariableValue :: "Variable \<Rightarrow> jsstring \<Rightarrow> jsstring option \<Rightarrow> ColorResult option" where
  "resolveVariableValue variable mode modeName =
     (case object_get (valuesByMode variable) mode of
        None \<Rightarrow> None
      | Some v \<Rightarrow>
          if \<not> truthy v then None
          else if \<not> isVariableAlias (Some v) then
            (let suffix = (case modeName of
                             None \<Rightarrow> []
                           | Some n \<Rightarrow> if n = [] then [] else str '' ('' @ n @ str '')'')
             in Some \<lparr>hex = parseColorValue (Some v), primitiveName = var_name variable @ suffix\<rparr>)
          else None)"

datatype BrandModeType = Light | Dark

fun brandModeType_string :: "BrandModeType \<Rightarrow> jsstring" where
  "brandModeType_string Light = str ''light''"
| "brandModeType_string Dark = str ''dark''"

text \<open>
  \<open>findMatchingMode\<close>: the result is the pair \<open>(modeId, modeName)\<close> of the first mode
  whose lower-cased name contains the brand mode type. A rejected lookup is caught (and
  logged, which is not modelled).
\<close>

definition findMatchingMode :: "host \<Rightarrow> Variable \<Rightarrow> BrandModeType \<Rightarrow> (jsstring \<times> jsstring) option" where
  "findMatchingMode h variable brandModeType =
     (if variableCollectionId variable = [] then None
      else case getVariableCollectionByIdAsync h (variableCollectionId variable) of
             Rejected \<Rightarrow> None
           | Fulfilled None \<Rightarrow> None
           | Fulfilled (Some collection) \<Rightarrow>
               (case find (\<lambda>m. String_includes (String_toLowerCase h (mode_name m))
                                  (brandModeType_string brandModeType))
                       (coll_modes collection) of
                  None \<Rightarrow> None
                | Some matchingMode \<Rightarrow> Some (modeId matchingMode, mode_name matchingMode)))"

text \<open>The last part of \<open>resolveColor\<close>: the first mode of the primitive, or the marker.\<close>

definition firstAvailableMode :: "Variable \<Rightarrow> ColorResult" where
  "firstAvailableMode primitiveVar =
     (case Object_keys (valuesByMode primitiveVar) of
        [] \<Rightarrow> createFallbackResult (str ''Unresolved: '' @ var_name primitiveVar)
      | mode # availableModes \<Rightarrow>
          (case resolveVariableValue primitiveVar mode (Some (str ''fallback'')) of
             Some fallbackResult \<Rightarrow> fallbackResult
           | None \<Rightarrow> createFallbackResult (str ''Unresolved: '' @ var_name primitiveVar)))"

text \<open>
  \<open>resolveColor\<close> calls itself on the primitive when the matching mode of the primitive
  holds an alias. Nothing bounds the depth: on a cycle of aliases the source does not
  return, and the model is \<open>None\<close>. The separator is the string \<open>" \<rightarrow> "\<close>, U+2192 between
  two spaces.
\<close>

definition arrow :: jsstring where
  "arrow = [32, 8594, 32]"

partial_function (option) resolveColor ::
  "host \<Rightarrow> Variable \<Rightarrow> jsstring \<Rightarrow> jsstring \<Rightarrow> BrandModeType option \<Rightarrow> ColorResult option" where
  "resolveColor h variable mode primitiveModeId brandModeType =
     (case object_get (valuesByMode variable) mode of
        Some (VAlias aliasId) \<Rightarrow>
          (case getVariableByIdAsync h aliasId of
             None \<Rightarrow> Some (createFallbackResult (str ''Unresolved''))
           | Some primitiveVar \<Rightarrow>
               (case resolveVariableValue primitiveVar primitiveModeId None of
                  Some directResult \<Rightarrow> Some directResult
                | None \<Rightarrow>
                    (case brandModeType of
                       None \<Rightarrow> Some (firstAvailableMode primitiveVar)
                     | Some bmt \<Rightarrow>
                         (case findMatchingMode h primitiveVar bmt of
                            None \<Rightarrow> Some (firstAvailableMode primitiveVar)
                          | Some matchingMode \<Rightarrow>
                              (case resolveVariableValue primitiveVar (fst matchingMode)
                                      (Some (snd matchingMode)) of
                                 Some modeResult \<Rightarrow> Some modeResult
                               | None \<Rightarrow>
                                   if isVariableAlias
                                        (object_get (valuesByMode primitiveVar) (fst matchingMode))
                                   then Option.bind
                                          (resolveColor h primitiveVar (fst matchingMode)
                                             (fst matchingMode) (Some bmt))
                                          (\<lambda>nestedResult. Some
                                             \<lparr>hex = hex nestedResult,
                                              primitiveName = var_name primitiveVar @ arrow
                                                @ primitiveName nestedResult\<rparr>)
                                   else Some (firstAvailableMode primitiveVar))))))
      | value \<Rightarrow> Some \<lparr>hex = parseColorValue value, primitiveName = str ''Raw''\<rparr>)"

text \<open>
  \<open>resolveBrandColors\<close>: a mode of the brand is resolved when \<open>brand.light?.modeId\<close>
  (\<open>brand.dark?.modeId\<close>) is truthy, that is when the binding is there and its \<open>modeId\<close>
  is not empty.
\<close>

record ModeBinding =
  binding_modeId :: jsstring
  binding_primitiveModeId :: jsstring

record Brand =
  brand_name :: jsstring
  brand_light :: "ModeBinding option"
  brand_dark :: "ModeBinding option"

definition resolveBrandMode ::
  "host \<Rightarrow> Variable \<Rightarrow> ModeBinding option \<Rightarrow> BrandModeType \<Rightarrow> ColorResult option option" where
  "resolveBrandMode h variable binding brandModeType =
     (case binding of
        None \<Rightarrow> Some None
      | Some m \<Rightarrow>
          if binding_modeId m = [] then Some None
          else Option.bind
                 (resolveColor h variable (binding_modeId m) (binding_primitiveModeId m)
                    (Some brandModeType))
                 (\<lambda>res. Some (Some res)))"

definition resolveBrandColors :: "host \<Rightarrow> Variable \<Rightarrow> Brand \<Rightarrow> BrandResult option" where
  "resolveBrandColors h variable brand =
     Option.bind (resolveBrandMode h variable (brand_light brand) Light) (\<lambda>lightRes.
     Option.bind (resolveBrandMode h variable (brand_dark brand) Dark) (\<lambda>darkRes.
     Some \<lparr>light = lightRes, dark = darkRes\<rparr>))"

section \<open>Names and paths (src/core/utils.ts, src/core/export.ts)\<close>

text \<open>
  The class \<open>\s\<close> of a regular expression without the \<open>u\<close> flag: the white space and
  line terminator code units of ECMAScript.
\<close>

definition is_whitespace :: "nat \<Rightarrow> bool" where
  "is_whitespace c =
     (c \<in> {9, 10, 11, 12, 13, 32, 160, 5760, 8232, 8233, 8239, 8287, 12288, 65279}
      \<or> (8192 \<le> c \<and> c \<le> 8202))"

text \<open>\<open>s.replace(/\s+/g, rep)\<close>: every maximal run of white space becomes \<open>rep\<close>.\<close>

function replace_whitespace :: "jsstring \<Rightarrow> jsstring \<Rightarrow> jsstring" where
  "replace_whitespace rep [] = []"
| "replace_whitespace rep (c # s) =
     (if is_whitespace c then rep @ replace_whitespace rep (dropWhile is_whitespace s)
      else c # replace_whitespace rep s)"
  by pat_completeness auto
termination
  by (relation "measure (\<lambda>(rep, s). length s)") (auto simp: length_dropWhile_le less_Suc_eq_le)

text \<open>\<open>s.replace(/\//g, rep)\<close>.\<close>

definition replace_slash :: "jsstring \<Rightarrow> jsstring \<Rightarrow> jsstring" where
  "replace_slash rep s = concat (map (\<lambda>c. if c = 47 then rep else [c]) s)"

definition toKebabCase :: "host \<Rightarrow> jsstring \<Rightarrow> jsstring" where
  "toKebabCase h n = String_toLowerCase h (replace_slash (str ''-'') (replace_whitespace (str ''-'') n))"

definition sanitizeFolderName :: "jsstring \<Rightarrow> jsstring" where
  "sanitizeFolderName n = replace_slash [] (replace_whitespace [] n)"

text \<open>\<open>s.split("/")\<close>: one part more than there are slashes.\<close>

fun split_slash :: "jsstring \<Rightarrow> jsstring list" where
  "split_slash [] = [[]]"
| "split_slash (c # s) =
     (if c = 47 then [] # split_slash s
      else case split_slash s of part # parts \<Rightarrow> (c # part) # parts | [] \<Rightarrow> [[c]])"

text \<open>\<open>/^\d+$/.test(s)\<close>: one or more ASCII digits and nothing else.\<close>

definition is_numeric :: "jsstring \<Rightarrow> bool" where
  "is_numeric s = (s \<noteq> [] \<and> list_all (\<lambda>c. 48 \<le> c \<and> c \<le> 57) s)"

record ParsedPath =
  folders :: "jsstring list"
  filename :: jsstring

text \<open>
  \<open>parseVariablePath\<close>. \<open>parts\<close> is never empty, so \<open>parts[parts.length - 1]\<close> is its last
  element, and \<open>parts[parts.length - 2]\<close> is read only when there are two parts or more.
\<close>

definition parseVariablePath :: "host \<Rightarrow> jsstring \<Rightarrow> ParsedPath" where
  "parseVariablePath h variableName =
     (let parts = split_slash variableName;
          folders' = map sanitizeFolderName (butlast parts);
          filename' = toKebabCase h (last parts)
      in if is_numeric (last parts) \<and> 1 < length parts
         then \<lparr>folders = folders',
               filename = toKebabCase h (last (butlast parts)) @ str ''-'' @ last parts\<rparr>
         else \<lparr>folders = folders', filename = filename'\<rparr>)"

section \<open>The export (src/core/export.ts, src/code.ts)\<close>

text \<open>
  \<open>createTokenObject\<close>: the brands are resolved in order, each result stored under the
  name of its brand.
\<close>

fun resolveBrands ::
  "host \<Rightarrow> Variable \<Rightarrow> Brand list \<Rightarrow> (jsstring \<rightharpoonup> BrandResult) \<Rightarrow> (jsstring \<rightharpoonup> BrandResult) option" where
  "resolveBrands h variable [] modes' = Some modes'"
| "resolveBrands h variable (brand # brands') modes' =
     Option.bind (resolveBrandColors h variable brand) (\<lambda>brandResult.
       resolveBrands h variable brands' (modes'(brand_name brand \<mapsto> brandResult)))"

definition createTokenObject :: "host \<Rightarrow> Variable \<Rightarrow> Brand list \<Rightarrow> TokenObject option" where
  "createTokenObject h variable brands' =
     Option.bind (resolveBrands h variable brands' Map.empty) (\<lambda>modes'.
       Some \<lparr>name = filename (parseVariablePath h (var_name variable)),
             path = var_name variable,
             modes = modes'\<rparr>)"

text \<open>
  \<open>processVariables\<close>: the loop over the variables, with the root array that it fills.
  A variable whose \<open>resolvedType\<close> is not \<open>COLOR\<close> is skipped; nothing else is tested.
\<close>

fun processVariables_loop ::
  "host \<Rightarrow> Brand list \<Rightarrow> item list \<Rightarrow> Variable list \<Rightarrow> item list option" where
  "processVariables_loop h brands' rootArray [] = Some rootArray"
| "processVariables_loop h brands' rootArray (variable # variables) =
     (if resolvedType variable \<noteq> COLOR then processVariables_loop h brands' rootArray variables
      else Option.bind (createTokenObject h variable brands') (\<lambda>tokenObj.
             processVariables_loop h brands'
               (insertTokenIntoTree rootArray
                  (folders (parseVariablePath h (var_name variable))) tokenObj)
               variables))"

definition processVariables :: "host \<Rightarrow> Variable list \<Rightarrow> Brand list \<Rightarrow> item list option" where
  "processVariables h variables brands' = processVariables_loop h brands' [] variables"

record ValidatedCollections =
  primitivesColl :: VariableCollection
  tokensColl :: VariableCollection
  variables :: "Variable list"

definition validateAndGetCollections :: "host \<Rightarrow> jsstring \<Rightarrow> jsstring \<Rightarrow> js_error + ValidatedCollections" where
  "validateAndGetCollections h tokenCollectionId' primitiveCollectionId' =
     (let collections = getLocalVariableCollectionsAsync h
      in case (find (\<lambda>c. coll_id c = primitiveCollectionId') collections,
               find (\<lambda>c. coll_id c = tokenCollectionId') collections) of
           (Some p, Some t) \<Rightarrow>
             Inr \<lparr>primitivesColl = p, tokensColl = t,
                  variables = filter (\<lambda>v. variableCollectionId v = tokenCollectionId')
                                (getLocalVariablesAsync h)\<rparr>
         | _ \<Rightarrow> Inl (Error (str ''Collections not found - please check your collection IDs'')))"

record ExportMetadata =
  exportedAt :: jsstring
  timestamp :: int
  version :: jsstring
  generator :: jsstring

record ExportData =
  metadata :: ExportMetadata
  tokens :: "item list"

definition createExportMetadata :: "host \<Rightarrow> ExportMetadata" where
  "createExportMetadata h =
     \<lparr>exportedAt = Date_toISOString h, timestamp = Date_now h,
      version = str ''1.0.0'', generator = str ''Multibrand Token Exporter''\<rparr>"

record ExportConfig =
  tokenCollectionId :: jsstring
  primitiveCollectionId :: jsstring
  brands :: "Brand list"
  lang :: "jsstring option"

text \<open>
  The notifications of export.ts (\<open>analyzing\<close>, \<open>exportFinished\<close>) and of code.ts
  (\<open>exportError\<close>), in French and in English. (The hourglass is U+23F3, the check mark
  U+2705, the cross U+274C, the e acute U+00E9.) A text that is read from an object that
  does not have it is \<open>undefined\<close>, here \<open>None\<close>.
\<close>

record Translation =
  analyzing :: "jsstring option"
  exportFinished :: "jsstring option"
  exportError :: "jsstring option"

definition translations_fr :: Translation where
  "translations_fr =
     \<lparr>analyzing = Some (9203 # str '' Analyse en cours...''),
      exportFinished = Some (9989 # str '' Export termin'' @ [233] @ str '' !''),
      exportError = Some (10060 # str '' Erreur d'' @ [39] @ str ''export : '')\<rparr>"

definition translations_en :: Translation where
  "translations_en =
     \<lparr>analyzing = Some (9203 # str '' Analysing...''),
      exportFinished = Some (9989 # str '' Export finished!''),
      exportError = Some (10060 # str '' Export Error: '')\<rparr>"

text \<open>
  \<open>translations[lang] || translations.en\<close>. The table is an object literal: besides its
  own properties \<open>fr\<close> and \<open>en\<close>, reading it at the name of a property of
  \<open>Object.prototype\<close> gives that inherited member, a function or an object, which is
  truthy and has none of the three texts. At any other code the table gives \<open>undefined\<close>
  and the English texts are taken.
\<close>

definition Object_prototype_members :: "jsstring list" where
  "Object_prototype_members =
     map str [''constructor'', ''hasOwnProperty'', ''isPrototypeOf'', ''propertyIsEnumerable'',
              ''toLocaleString'', ''toString'', ''valueOf'', ''__proto__'',
              ''__defineGetter__'', ''__defineSetter__'', ''__lookupGetter__'',
              ''__lookupSetter__'']"

definition translation_of :: "jsstring \<Rightarrow> Translation" where
  "translation_of code =
     (if code = str ''fr'' then translations_fr
      else if code = str ''en'' then translations_en
      else if code \<in> set Object_prototype_members
      then \<lparr>analyzing = None, exportFinished = None, exportError = None\<rparr>
      else translations_en)"

text \<open>
  What the plugin does to its surroundings: \<open>figma.notify\<close>, with the text it is given
  (\<open>None\<close> is \<open>undefined\<close>), and \<open>figma.ui.postMessage\<close> (the only message of the export
  is \<open>{ type: "download-json", data }\<close>).
\<close>

datatype ui_message = DownloadJson ExportData

datatype effect = Notify "jsstring option" | PostMessage ui_message

text \<open>A call of \<open>figma.notify\<close>: the notification, or the error that the host throws.\<close>

definition figma_notify :: "host \<Rightarrow> jsstring option \<Rightarrow> js_error + effect" where
  "figma_notify h text =
     (case text of
        Some s \<Rightarrow> Inr (Notify (Some s))
      | None \<Rightarrow> (case notify_undefined h of Some e \<Rightarrow> Inl e | None \<Rightarrow> Inr (Notify None)))"

text \<open>
  \<open>exportTokens\<close>: the effects in the order they happen, and how the call ends (\<open>Inl\<close>
  is the error thrown). \<open>None\<close> is a call that does not return, because a resolution
  does not. \<open>language\<close> is \<open>config.lang || 'en'\<close>.
\<close>

definition language :: "ExportConfig \<Rightarrow> jsstring" where
  "language config = (case lang config of None \<Rightarrow> str ''en'' | Some l \<Rightarrow> if l = [] then str ''en'' else l)"

definition exportTokens :: "host \<Rightarrow> ExportConfig \<Rightarrow> (effect list \<times> (js_error + unit)) option" where
  "exportTokens h config =
     (let t = translation_of (language config)
      in case figma_notify h (analyzing t) of
           Inl thrown \<Rightarrow> Some ([], Inl thrown)
         | Inr started \<Rightarrow>
            (case validateAndGetCollections h (tokenCollectionId config) (primitiveCollectionId config) of
               Inl err \<Rightarrow> Some ([started], Inl err)
             | Inr validated \<Rightarrow>
                 Option.bind (processVariables h (variables validated) (brands config)) (\<lambda>rootArray.
                   let sortedTokens = sortTokensAlphabetically (String_localeCompare h) rootArray;
                       exportData = \<lparr>metadata = createExportMetadata h, tokens = sortedTokens\<rparr>
                   in case figma_notify h (exportFinished t) of
                        Inl thrown \<Rightarrow> Some ([started, PostMessage (DownloadJson exportData)], Inl thrown)
                      | Inr finished \<Rightarrow>
                          Some ([started, PostMessage (DownloadJson exportData), finished], Inr ()))))"

text \<open>
  \<open>handleExportRequest\<close> of code.ts catches the error, logs it (not modelled) and
  notifies the user of \<open>t.exportError + e.message\<close>, where an \<open>undefined\<close> text is the
  string \<open>undefined\<close>; \<open>currentLang\<close> is the language the interface sent at
  initialisation.
\<close>

definition text_plus :: "jsstring option \<Rightarrow> jsstring \<Rightarrow> jsstring" where
  "text_plus text s = (case text of None \<Rightarrow> str ''undefined'' @ s | Some t \<Rightarrow> t @ s)"

definition handleExportRequest :: "host \<Rightarrow> jsstring \<Rightarrow> ExportConfig \<Rightarrow> effect list option" where
  "handleExportRequest h currentLang config =
     (case exportTokens h config of
        None \<Rightarrow> None
      | Some (effects, Inr u) \<Rightarrow> Some effects
      | Some (effects, Inl (Error message)) \<Rightarrow>
          Some (effects @ [Notify (Some (text_plus (exportError (translation_of currentLang)) message))]))"

section \<open>Properties of the token tree\<close>

text \<open>
  The names of the groups of a level; a forest in which no level, at any depth, has two
  groups of the same name.
\<close>

definition group_names :: "item list \<Rightarrow> jsstring list" where
  "group_names items = map item_name (filter is_group items)"

fun unique_groups :: "item list \<Rightarrow> bool" and unique_below :: "item \<Rightarrow> bool" where
  "unique_groups items = (distinct (group_names items) \<and> list_all unique_below items)"
| "unique_below (Group n children) = unique_groups children"
| "unique_below (Token t) = True"

text \<open>
  A consistent comparison function in the sense of ECMAScript: the sign of \<open>cmp a b\<close> is
  the opposite of that of \<open>cmp b a\<close>, and not being after is transitive. \<open>Array.prototype.sort\<close>
  promises a sorted result for such a function only, and \<open>String.prototype.localeCompare\<close>
  is required to be one.
\<close>

definition consistent_comparator :: "('a \<Rightarrow> 'a \<Rightarrow> int) \<Rightarrow> bool" where
  "consistent_comparator cmp =
     ((\<forall>a b. (cmp a b < 0) = (0 < cmp b a)) \<and>
      (\<forall>a b c. cmp a b \<le> 0 \<longrightarrow> cmp b c \<le> 0 \<longrightarrow> cmp a c \<le> 0))"

text \<open>
  A level with its groups before its tokens; a list of items whose names are
  non-decreasing under \<open>localeCompare\<close>; a forest that is so sorted at every depth.
\<close>

definition groups_first :: "item list \<Rightarrow> bool" where
  "groups_first items = (items = filter is_group items @ filter (\<lambda>i. \<not> is_group i) items)"

definition tier_sorted :: "(jsstring \<Rightarrow> jsstring \<Rightarrow> int) \<Rightarrow> item list \<Rightarrow> bool" where
  "tier_sorted localeCompare items =
     sorted_wrt (\<lambda>a b. localeCompare (item_name a) (item_name b) \<le> 0) items"

fun sorted_forest :: "(jsstring \<Rightarrow> jsstring \<Rightarrow> int) \<Rightarrow> item list \<Rightarrow> bool"
  and sorted_below :: "(jsstring \<Rightarrow> jsstring \<Rightarrow> int) \<Rightarrow> item \<Rightarrow> bool" where
  "sorted_forest lc items =
     (groups_first items \<and> tier_sorted lc (filter is_group items) \<and>
      tier_sorted lc (filter (\<lambda>i. \<not> is_group i) items) \<and> list_all (sorted_below lc) items)"
| "sorted_below lc (Group n children) = sorted_forest lc children"
| "sorted_below lc (Token t) = True"

text \<open>
  Sample data for the concrete instances below: comparison by code units, which is a
  consistent comparison function, and a token that no brand has been resolved for.
\<close>

definition codeUnitCompare :: "jsstring \<Rightarrow> jsstring \<Rightarrow> int" where
  "codeUnitCompare a b = (if a < b then - 1 else if a = b then 0 else 1)"

definition sample_token :: "string \<Rightarrow> string \<Rightarrow> TokenObject" where
  "sample_token n p = \<lparr>name = str n, path = str p, modes = Map.empty\<rparr>"

definition sample_calls :: "(jsstring list \<times> TokenObject) list" where
  "sample_calls =
     [([str ''Colors'', str ''Border''], sample_token ''primary'' ''Colors/Border/Primary''),
      ([], sample_token ''zebra'' ''zebra''),
      ([str ''Colors'', str ''Background''], sample_token ''primary'' ''Colors/Background/Primary'')]"

definition sample_forest :: "item list" where
  "sample_forest =
     [Token (sample_token ''zebra'' ''zebra''),
      Group (str ''Colors'')
        [Token (sample_token ''accent'' ''Colors/accent''),
         Group (str ''Border'') [Token (sample_token ''primary'' ''Colors/Border/Primary'')],
         Group (str ''Background'') [Token (sample_token ''primary'' ''Colors/Background/Primary'')]],
      Token (sample_token ''alpha'' ''alpha'')]"

definition sample_forest_sorted :: "item list" where
  "sample_forest_sorted =
     [Group (str ''Colors'')
        [Group (str ''Background'') [Token (sample_token ''primary'' ''Colors/Background/Primary'')],
         Group (str ''Border'') [Token (sample_token ''primary'' ''Colors/Border/Primary'')],
         Token (sample_token ''accent'' ''Colors/accent'')],
      Token (sample_token ''alpha'' ''alpha''),
      Token (sample_token ''zebra'' ''zebra'')]"

section \<open>Properties of the colour encoding\<close>

text \<open>
  The two upper-case hexadecimal digits of a number from 0 to 255; the number a channel
  stands for, that is the channel times 255, rounded; a channel between 0 and 1.
\<close>

definition upper_hex_digit :: "nat \<Rightarrow> nat" where
  "upper_hex_digit d = (if d < 10 then 48 + d else 55 + d)"

definition two_hex_digits :: "nat \<Rightarrow> jsstring" where
  "two_hex_digits n = [upper_hex_digit (n div 16), upper_hex_digit (n mod 16)]"

definition channel_value :: "number \<Rightarrow> nat" where
  "channel_value v = (case Math_round (times255 v) of Fin i \<Rightarrow> nat i | _ \<Rightarrow> 0)"

definition in_unit_interval :: "number \<Rightarrow> bool" where
  "in_unit_interval v = (case v of Fin x \<Rightarrow> 0 \<le> x \<and> x \<le> 1 | _ \<Rightarrow> False)"

section \<open>A sample document\<close>

text \<open>
  A sample document: a collection of primitives with three modes, a collection of tokens
  with two, and a host whose lower-casing and collation are those of ASCII.
\<close>

definition asciiLowerCase :: "jsstring \<Rightarrow> jsstring" where
  "asciiLowerCase s = map (\<lambda>c. if 65 \<le> c \<and> c \<le> 90 then c + 32 else c) s"

definition sample_color :: "rat \<Rightarrow> rat \<Rightarrow> rat \<Rightarrow> rat \<Rightarrow> VariableValue" where
  "sample_color r g b a = VColor \<lparr>rgba_r = Fin r, rgba_g = Fin g, rgba_b = Fin b, rgba_a = Some (Fin a)\<rparr>"

definition sample_primitives :: VariableCollection where
  "sample_primitives =
     \<lparr>coll_id = str ''VariableCollectionId:2'', coll_name = str ''Primitives'',
      coll_modes = [\<lparr>modeId = str ''2:0'', mode_name = str ''Light''\<rparr>,
                    \<lparr>modeId = str ''2:1'', mode_name = str ''Dark''\<rparr>,
                    \<lparr>modeId = str ''2:2'', mode_name = str ''Dark HC''\<rparr>]\<rparr>"

definition sample_tokens :: VariableCollection where
  "sample_tokens =
     \<lparr>coll_id = str ''VariableCollectionId:1'', coll_name = str ''Tokens'',
      coll_modes = [\<lparr>modeId = str ''1:0'', mode_name = str ''Light''\<rparr>,
                    \<lparr>modeId = str ''1:1'', mode_name = str ''Dark''\<rparr>]\<rparr>"

definition sample_gray :: Variable where
  "sample_gray = \<lparr>var_id = str ''VariableID:gray'', var_name = str ''Gray/50'', resolvedType = COLOR,
           variableCollectionId = str ''VariableCollectionId:2'',
           valuesByMode = [(str ''2:0'', sample_color 1 1 1 1), (str ''2:1'', sample_color 0 0 0 (1/2))]\<rparr>"

definition sample_surface :: Variable where
  "sample_surface = \<lparr>var_id = str ''VariableID:surface'', var_name = str ''Surface/Base'', resolvedType = COLOR,
           variableCollectionId = str ''VariableCollectionId:2'',
           valuesByMode = [(str ''2:1'', VAlias (str ''VariableID:gray'')), (str ''2:2'', sample_color 1 0 0 1)]\<rparr>"

definition sample_accent :: Variable where
  "sample_accent = \<lparr>var_id = str ''VariableID:accent'', var_name = str ''Accent'', resolvedType = COLOR,
           variableCollectionId = str ''VariableCollectionId:2'',
           valuesByMode = [(str ''2:1'', sample_color 1 0 0 1)]\<rparr>"

definition sample_border :: Variable where
  "sample_border = \<lparr>var_id = str ''VariableID:border'', var_name = str ''Colors/Border/Primary'', resolvedType = COLOR,
           variableCollectionId = str ''VariableCollectionId:1'',
           valuesByMode = [(str ''1:0'', VAlias (str ''VariableID:gray'')),
                           (str ''1:1'', VAlias (str ''VariableID:surface''))]\<rparr>"

definition sample_hidden :: Variable where
  "sample_hidden = \<lparr>var_id = str ''VariableID:hidden'', var_name = str ''_private/#12'', resolvedType = COLOR,
           variableCollectionId = str ''VariableCollectionId:1'',
           valuesByMode = [(str ''1:0'', VAlias (str ''VariableID:accent'')),
                           (str ''1:1'', VAlias (str ''VariableID:gone''))]\<rparr>"

definition sample_spacing :: Variable where
  "sample_spacing = \<lparr>var_id = str ''VariableID:spacing'', var_name = str ''Spacing/4'', resolvedType = FLOAT,
           variableCollectionId = str ''VariableCollectionId:1'',
           valuesByMode = [(str ''1:0'', VNumber (Fin 4)), (str ''1:1'', VNumber (Fin 4))]\<rparr>"

definition sample_host :: host where
  "sample_host =
     \<lparr>getVariableByIdAsync = map_of (map (\<lambda>v. (var_id v, v)) [sample_gray, sample_surface, sample_accent, sample_border, sample_hidden, sample_spacing]),
      getVariableCollectionByIdAsync =
        (\<lambda>i. Fulfilled (find (\<lambda>c. coll_id c = i) [sample_tokens, sample_primitives])),
      getLocalVariableCollectionsAsync = [sample_tokens, sample_primitives],
      getLocalVariablesAsync = [sample_gray, sample_border, sample_spacing, sample_surface, sample_hidden, sample_accent],
      String_toLowerCase = asciiLowerCase,
      String_localeCompare = codeUnitCompare,
      Date_toISOString = str ''2026-01-28T14:32:45.123Z'',
      Date_now = 1769610765123,
      notify_undefined = None\<rparr>"

lemmas sample_defs = sample_host_def sample_gray_def sample_surface_def sample_accent_def
  sample_border_def sample_hidden_def sample_spacing_def sample_primitives_def sample_tokens_def
  sample_color_def asciiLowerCase_def




section \<open>Properties of the export\<close>

text \<open>
  The tokens of a forest, at any depth, and the variables that the export is about: those
  of the token collection whose type is \<open>COLOR\<close>.
\<close>

fun tokens_of :: "item list \<Rightarrow> TokenObject list" and tokens_in :: "item \<Rightarrow> TokenObject list" where
  "tokens_of items = concat (map tokens_in items)"
| "tokens_in (Token t) = [t]"
| "tokens_in (Group n children) = tokens_of children"


definition not_found_message :: jsstring where
  "not_found_message = str ''Collections not found - please check your collection IDs''"

text \<open>An export configuration for the sample document, and what its export is.\<close>

definition sample_config :: ExportConfig where
  "sample_config =
     \<lparr>tokenCollectionId = str ''VariableCollectionId:1'',
      primitiveCollectionId = str ''VariableCollectionId:2'',
      brands = [\<lparr>brand_name = str ''Legacy'',
                 brand_light = Some \<lparr>binding_modeId = str ''1:0'', binding_primitiveModeId = str ''2:0''\<rparr>,
                 brand_dark = Some \<lparr>binding_modeId = str ''1:1'', binding_primitiveModeId = str ''2:1''\<rparr>\<rparr>],
      lang = None\<rparr>"




definition sample_config_unknown :: ExportConfig where
  "sample_config_unknown = sample_config\<lparr>primitiveCollectionId := str ''VariableCollectionId:404''\<rparr>"

section \<open>Lemmas about the token tree\<close>

lemma group_names_descend:
  "group_names (descend f k level) =
     (if f \<in> set (group_names level) then group_names level else group_names level @ [f])"
  by (induction f k level rule: descend.induct) (auto simp: group_names_def)

lemma unique_groups_descend:
  assumes "unique_groups level" and k: "\<And>cs. unique_groups cs \<Longrightarrow> unique_groups (k cs)"
  shows "unique_groups (descend f k level)"
proof -
  have "list_all unique_below level \<Longrightarrow> list_all unique_below (descend f k level)"
  proof (induction level)
    case Nil
    have "unique_groups []" by (simp add: group_names_def)
    then have "unique_groups (k [])" by (rule k)
    then show ?case by (simp del: unique_groups.simps)
  next
    case (Cons i level)
    then show ?case by (cases i) (auto simp: k simp del: unique_groups.simps)
  qed
  moreover have "distinct (group_names (descend f k level))"
    using assms(1) by (simp add: group_names_descend)
  ultimately show ?thesis using assms(1) by simp
qed

lemma unique_groups_insert:
  "unique_groups level \<Longrightarrow> unique_groups (insertTokenIntoTree level fs tok)"
proof (induction fs arbitrary: level)
  case Nil
  then show ?case by (simp add: group_names_def)
next
  case (Cons f fs)
  show ?case
    unfolding insertTokenIntoTree.simps
    by (rule unique_groups_descend[OF Cons.prems]) (rule Cons.IH)
qed

lemma unique_groups_calls:
  "unique_groups rootArray \<Longrightarrow>
   unique_groups (foldl (\<lambda>rootArray (folders, tok). insertTokenIntoTree rootArray folders tok) rootArray calls)"
  by (induction calls arbitrary: rootArray) (auto simp: unique_groups_insert simp del: unique_groups.simps)

lemma descend_absent:
  "f \<notin> set (group_names level) \<Longrightarrow> descend f k level = level @ [Group f (k [])]"
  by (induction f k level rule: descend.induct) (auto simp: group_names_def)

lemma descend_present:
  "f \<in> set (group_names level) \<Longrightarrow>
   \<exists>pre cs post. level = pre @ Group f cs # post \<and> f \<notin> set (group_names pre) \<and>
     descend f k level = pre @ Group f (k cs) # post"
proof (induction f k level rule: descend.induct)
  case (1 f k)
  then show ?case by (simp add: group_names_def)
next
  case (2 f k n cs rest)
  show ?case
  proof (cases "n = f")
    case True
    then have "Group n cs # rest = [] @ Group f cs # rest \<and> f \<notin> set (group_names []) \<and>
        descend f k (Group n cs # rest) = [] @ Group f (k cs) # rest"
      by (simp add: group_names_def)
    then show ?thesis by blast
  next
    case False
    with 2 obtain pre cs' post where "rest = pre @ Group f cs' # post"
      "f \<notin> set (group_names pre)" "descend f k rest = pre @ Group f (k cs') # post"
      by (auto simp: group_names_def)
    with False have "Group n cs # rest = (Group n cs # pre) @ Group f cs' # post \<and>
        f \<notin> set (group_names (Group n cs # pre)) \<and>
        descend f k (Group n cs # rest) = (Group n cs # pre) @ Group f (k cs') # post"
      by (simp add: group_names_def)
    then show ?thesis by blast
  qed
next
  case (3 f k t rest)
  then obtain pre cs' post where "rest = pre @ Group f cs' # post"
      "f \<notin> set (group_names pre)" "descend f k rest = pre @ Group f (k cs') # post"
      by (auto simp: group_names_def)
  then have "Token t # rest = (Token t # pre) @ Group f cs' # post \<and>
        f \<notin> set (group_names (Token t # pre)) \<and>
        descend f k (Token t # rest) = (Token t # pre) @ Group f (k cs') # post"
      by (simp add: group_names_def)
  then show ?case by blast
qed

lemma set_insert_sorted [simp]: "set (insert_sorted cmp x ys) = insert x (set ys)"
  by (induction ys) auto

lemma set_array_sort [simp]: "set (array_sort cmp xs) = set xs"
  by (induction xs) (auto simp: array_sort_def)

lemma mset_insert_sorted [simp]: "mset (insert_sorted cmp x ys) = add_mset x (mset ys)"
  by (induction ys) auto


lemma consistent_total: "consistent_comparator cmp \<Longrightarrow> \<not> cmp a b \<le> 0 \<Longrightarrow> cmp b a \<le> 0"
  unfolding consistent_comparator_def by (metis less_le_not_le linorder_not_le)

lemma consistent_trans:
  "consistent_comparator cmp \<Longrightarrow> cmp a b \<le> 0 \<Longrightarrow> cmp b c \<le> 0 \<Longrightarrow> cmp a c \<le> 0"
  unfolding consistent_comparator_def by blast

lemma sorted_insert_sorted:
  assumes "consistent_comparator cmp"
  shows "sorted_wrt (\<lambda>a b. cmp a b \<le> 0) ys \<Longrightarrow>
         sorted_wrt (\<lambda>a b. cmp a b \<le> 0) (insert_sorted cmp x ys)"
proof (induction ys)
  case Nil
  then show ?case by simp
next
  case (Cons y ys)
  show ?case
  proof (cases "cmp x y \<le> 0")
    case True
    with Cons.prems show ?thesis
      using consistent_trans[OF assms, of x y] by auto
  next
    case False
    then have "cmp y x \<le> 0" by (rule consistent_total[OF assms])
    with False Cons show ?thesis by auto
  qed
qed

lemma sorted_array_sort:
  "consistent_comparator cmp \<Longrightarrow> sorted_wrt (\<lambda>a b. cmp a b \<le> 0) (array_sort cmp xs)"
  by (induction xs) (auto simp: array_sort_def sorted_insert_sorted)

lemma insert_sorted_front:
  "\<forall>y\<in>set ys. cmp x y \<le> 0 \<Longrightarrow> insert_sorted cmp x ys = x # ys"
  by (cases ys) auto

lemma array_sort_sorted_id:
  "sorted_wrt (\<lambda>a b. cmp a b \<le> 0) xs \<Longrightarrow> array_sort cmp xs = xs"
proof (induction xs)
  case Nil
  then show ?case by (simp add: array_sort_def)
next
  case (Cons x xs)
  then have "array_sort cmp xs = xs" by simp
  then have "array_sort cmp (x # xs) = insert_sorted cmp x xs" by (simp add: array_sort_def)
  with Cons.prems show ?case by (simp add: insert_sorted_front)
qed

lemma map_insert_sorted:
  assumes "\<And>a b. cmp (f a) (f b) = cmp a b"
  shows "map f (insert_sorted cmp x ys) = insert_sorted cmp (f x) (map f ys)"
  by (induction ys) (auto simp: assms)

lemma map_array_sort:
  assumes "\<And>a b. cmp (f a) (f b) = cmp a b"
  shows "map f (array_sort cmp xs) = array_sort cmp (map f xs)"
proof (induction xs)
  case Nil
  then show ?case by (simp add: array_sort_def)
next
  case (Cons x xs)
  have "map f (array_sort cmp (x # xs)) = insert_sorted cmp (f x) (map f (array_sort cmp xs))"
    by (simp add: array_sort_def map_insert_sorted[of cmp f, OF assms])
  with Cons show ?case by (simp add: array_sort_def)
qed

lemma is_group_sortChildren [simp]: "is_group (sortChildren lc i) = is_group i"
  by (cases i) auto

lemma item_name_sortChildren [simp]: "item_name (sortChildren lc i) = item_name i"
  by (cases i) auto

lemma compareItems_sortChildren:
  "compareItems lc (sortChildren lc a) (sortChildren lc b) = compareItems lc a b"
  by (simp add: compareItems_def)

lemma consistent_compareItems:
  assumes "consistent_comparator lc"
  shows "consistent_comparator (compareItems lc)"
proof -
  have sym: "(lc a b < 0) = (0 < lc b a)" for a b
    using assms unfolding consistent_comparator_def by blast
  have tr: "lc a b \<le> 0 \<Longrightarrow> lc b c \<le> 0 \<Longrightarrow> lc a c \<le> 0" for a b c
    using assms unfolding consistent_comparator_def by blast
  have 1: "(compareItems lc a b < 0) = (0 < compareItems lc b a)" for a b
    by (simp add: compareItems_def sym)
  have 2: "compareItems lc a b \<le> 0 \<Longrightarrow> compareItems lc b c \<le> 0 \<Longrightarrow> compareItems lc a c \<le> 0" for a b c
    using tr[of "item_name a" "item_name b" "item_name c"]
    by (auto simp: compareItems_def split: if_splits)
  show ?thesis unfolding consistent_comparator_def using 1 2 by blast
qed

lemma sorted_groups_first:
  "sorted_wrt (\<lambda>a b. compareItems lc a b \<le> 0) xs \<Longrightarrow> groups_first xs"
proof (induction xs)
  case Nil
  then show ?case by (simp add: groups_first_def)
next
  case (Cons x xs)
  then have gf: "xs = filter is_group xs @ filter (\<lambda>i. \<not> is_group i) xs"
    by (simp add: groups_first_def)
  show ?case
  proof (cases "is_group x")
    case True
    with gf show ?thesis by (simp add: groups_first_def)
  next
    case False
    with Cons.prems have "\<forall>y\<in>set xs. \<not> is_group y"
      by (auto simp: compareItems_def split: if_splits)
    then have "filter is_group xs = []" "filter (\<lambda>i. \<not> is_group i) xs = xs"
      by (simp_all add: filter_empty_conv filter_id_conv)
    with False show ?thesis by (simp add: groups_first_def)
  qed
qed

lemma sorted_tier:
  assumes "sorted_wrt (\<lambda>a b. compareItems lc a b \<le> 0) xs"
  shows "tier_sorted lc (filter is_group xs)" and "tier_sorted lc (filter (\<lambda>i. \<not> is_group i) xs)"
proof -
  have "sorted_wrt (\<lambda>a b. compareItems lc a b \<le> 0) (filter is_group xs)"
    using assms by (rule sorted_wrt_filter)
  then show "tier_sorted lc (filter is_group xs)"
    unfolding tier_sorted_def
    by (rule sorted_wrt_mono_rel[rotated]) (auto simp: compareItems_def)
  have "sorted_wrt (\<lambda>a b. compareItems lc a b \<le> 0) (filter (\<lambda>i. \<not> is_group i) xs)"
    using assms by (rule sorted_wrt_filter)
  then show "tier_sorted lc (filter (\<lambda>i. \<not> is_group i) xs)"
    unfolding tier_sorted_def
    by (rule sorted_wrt_mono_rel[rotated]) (auto simp: compareItems_def)
qed

lemma sorted_forest_sort:
  "consistent_comparator lc \<Longrightarrow> sorted_forest lc (sortTokensAlphabetically lc items)"
  "consistent_comparator lc \<Longrightarrow> sorted_below lc (sortChildren lc i)"
proof (induction lc items and lc i rule: sortTokensAlphabetically_sortChildren.induct)
  case (1 lc items)
  let ?ys = "array_sort (compareItems lc) (map (sortChildren lc) items)"
  have s: "sorted_wrt (\<lambda>a b. compareItems lc a b \<le> 0) ?ys"
    by (rule sorted_array_sort) (rule consistent_compareItems, rule 1)
  have "list_all (sorted_below lc) ?ys"
    using 1 by (auto simp: list_all_iff)
  with s show ?case
    using sorted_groups_first[OF s] sorted_tier[OF s] by simp
next
  case (2 lc n children)
  then show ?case by simp
next
  case (3 lc t)
  then show ?case by simp
qed

lemma sort_idem:
  "consistent_comparator lc \<Longrightarrow>
   sortTokensAlphabetically lc (sortTokensAlphabetically lc items) = sortTokensAlphabetically lc items"
  "consistent_comparator lc \<Longrightarrow> sortChildren lc (sortChildren lc i) = sortChildren lc i"
proof (induction lc items and lc i rule: sortTokensAlphabetically_sortChildren.induct)
  case (1 lc items)
  let ?cmp = "compareItems lc" and ?f = "sortChildren lc"
  have c: "consistent_comparator ?cmp" by (rule consistent_compareItems) (rule 1)
  have "map ?f (array_sort ?cmp (map ?f items)) = array_sort ?cmp (map ?f (map ?f items))"
    by (rule map_array_sort) (rule compareItems_sortChildren)
  also have "map ?f (map ?f items) = map ?f items"
    using 1 by simp
  finally have "sortTokensAlphabetically lc (sortTokensAlphabetically lc items)
      = array_sort ?cmp (array_sort ?cmp (map ?f items))"
    by simp
  also have "\<dots> = array_sort ?cmp (map ?f items)"
    by (rule array_sort_sorted_id) (rule sorted_array_sort[OF c])
  finally show ?case by simp
next
  case (2 lc n children)
  then show ?case by simp
next
  case (3 lc t)
  then show ?case by simp
qed

lemma consistent_codeUnitCompare: "consistent_comparator codeUnitCompare"
  unfolding consistent_comparator_def codeUnitCompare_def by auto

lemma sort_sample_forest:
  "sortTokensAlphabetically codeUnitCompare sample_forest = sample_forest_sorted"
  by (simp add: sample_forest_def sample_forest_sorted_def str_def array_sort_def
      compareItems_def codeUnitCompare_def sample_token_def)

section \<open>Lemmas about the colour encoding\<close>

lemma power_div_power_int: "(2::rat) ^ a / 2 ^ b = 2 powi (int a - int b)"
  by (simp add: power_int_diff)

lemma floor_log2_bounds:
  assumes "0 < x"
  shows "2 powi floor_log2 x \<le> x \<and> x < 2 powi (floor_log2 x + 1)"
proof -
  obtain p q where pq: "quotient_of x = (p, q)" by (cases "quotient_of x")
  then have q: "0 < q" by (rule quotient_of_denom_pos)
  from pq have x: "x = of_int p / of_int q" by (rule quotient_of_div)
  with assms q have p: "0 < p" by (simp add: zero_less_divide_iff)
  define d where "d = bitlen p - bitlen q"
  have bp: "1 \<le> bitlen p" and bq: "1 \<le> bitlen q"
    using p q bitlen_eq_zero_iff[of p] bitlen_eq_zero_iff[of q] bitlen_nonneg[of p] bitlen_nonneg[of q]
    by linarith+
  have qr: "(0::rat) < of_int q" using q by simp
  have "p * 2 ^ nat (bitlen q - 1) \<le> p * q"
    using bitlen_bounds[OF q] p by (intro mult_left_mono) simp_all
  also have "\<dots> < 2 ^ nat (bitlen p) * q"
    using bitlen_bounds[OF p] q by (intro mult_strict_right_mono) simp_all
  finally have "(of_int (p * 2 ^ nat (bitlen q - 1)) :: rat) < of_int (2 ^ nat (bitlen p) * q)"
    by (simp only: of_int_less_iff)
  then have "of_int p * (2::rat) ^ nat (bitlen q - 1) < 2 ^ nat (bitlen p) * of_int q"
    by simp
  then have "x < 2 ^ nat (bitlen p) / 2 ^ nat (bitlen q - 1)"
    using qr by (simp add: x field_simps)
  also have "\<dots> = 2 powi (int (nat (bitlen p)) - int (nat (bitlen q - 1)))"
    by (rule power_div_power_int)
  also have "int (nat (bitlen p)) - int (nat (bitlen q - 1)) = d + 1"
    using bp bq by (simp add: d_def)
  finally have upper: "x < 2 powi (d + 1)" .
  have "2 ^ nat (bitlen p - 1) * q \<le> p * q"
    using bitlen_bounds[OF p] q by (intro mult_right_mono) simp_all
  also have "\<dots> < p * 2 ^ nat (bitlen q)"
    using bitlen_bounds[OF q] p by (intro mult_strict_left_mono) simp_all
  finally have "(of_int (2 ^ nat (bitlen p - 1) * q) :: rat) < of_int (p * 2 ^ nat (bitlen q))"
    by (simp only: of_int_less_iff)
  then have "(2::rat) ^ nat (bitlen p - 1) * of_int q < of_int p * 2 ^ nat (bitlen q)"
    by simp
  then have "2 ^ nat (bitlen p - 1) / 2 ^ nat (bitlen q) < x"
    using qr by (simp add: x field_simps)
  moreover have "(2::rat) ^ nat (bitlen p - 1) / 2 ^ nat (bitlen q)
      = 2 powi (int (nat (bitlen p - 1)) - int (nat (bitlen q)))"
    by (rule power_div_power_int)
  moreover have "int (nat (bitlen p - 1)) - int (nat (bitlen q)) = d - 1"
    using bp bq by (simp add: d_def)
  ultimately have lower: "2 powi (d - 1) < x" by simp
  have fl: "floor_log2 x = (if 2 powi d \<le> x then d else d - 1)"
    by (simp add: floor_log2_def pq d_def Let_def)
  show ?thesis
  proof (cases "2 powi d \<le> x")
    case True
    with upper fl show ?thesis by simp
  next
    case False
    with lower fl show ?thesis by simp
  qed
qed

lemma floor_log2_eq:
  assumes "2 powi d \<le> x" and "x < 2 powi (d + 1)"
  shows "floor_log2 x = d"
proof -
  have "(0::rat) < 2 powi d" by simp
  with assms(1) have pos: "0 < x" by linarith
  note b = floor_log2_bounds[OF pos]
  have "(2::rat) powi d < 2 powi (floor_log2 x + 1)" using assms(1) b by linarith
  then have "d < floor_log2 x + 1"
    by (metis linorder_not_less one_le_numeral power_int_increasing)
  moreover have "(2::rat) powi floor_log2 x < 2 powi (d + 1)" using assms(2) b by linarith
  then have "floor_log2 x < d + 1"
    by (metis linorder_not_less one_le_numeral power_int_increasing)
  ultimately show ?thesis by simp
qed

lemma floor_log2_le:
  assumes "0 < x" and "x \<le> 255"
  shows "floor_log2 x \<le> 7"
proof -
  have "2 powi floor_log2 x \<le> x" using floor_log2_bounds[OF assms(1)] by simp
  also have "x < 2 powi 8" using assms(2) by simp
  finally have "floor_log2 x < 8"
    by (metis linorder_not_less one_le_numeral power_int_increasing)
  then show ?thesis by simp
qed

lemma round_half_even_le:
  assumes "x \<le> of_int N"
  shows "round_half_even x \<le> N"
proof -
  have n: "\<lfloor>x\<rfloor> \<le> N" using assms by (simp add: floor_le_iff)
  show ?thesis
  proof (cases "\<lfloor>x\<rfloor> = N")
    case True
    then have "x - of_int \<lfloor>x\<rfloor> \<le> 0" using assms by simp
    then show ?thesis using True by (simp add: round_half_even_def Let_def)
  next
    case False
    with n have "\<lfloor>x\<rfloor> + 1 \<le> N" by simp
    with n show ?thesis by (simp add: round_half_even_def Let_def)
  qed
qed

lemma round_half_even_nonneg: "0 \<le> x \<Longrightarrow> 0 \<le> round_half_even x"
  by (simp add: round_half_even_def Let_def)

lemma round_half_even_error: "\<bar>of_int (round_half_even t) - t\<bar> \<le> 1 / 2"
proof -
  define n where "n = \<lfloor>t\<rfloor>"
  have b: "of_int n \<le> t" "t < of_int n + 1" unfolding n_def by linarith+
  have "round_half_even t = n \<and> t - of_int n \<le> 1 / 2 \<or>
        round_half_even t = n + 1 \<and> 1 / 2 \<le> t - of_int n"
    by (auto simp: round_half_even_def Let_def n_def[symmetric])
  then show ?thesis
  proof
    assume "round_half_even t = n \<and> t - of_int n \<le> 1 / 2"
    then show ?thesis using b by simp
  next
    assume "round_half_even t = n + 1 \<and> 1 / 2 \<le> t - of_int n"
    then show ?thesis using b by simp
  qed
qed

lemma to_double_unit:
  assumes "0 \<le> x" and "x \<le> 255"
  shows "\<exists>y. to_double x = Fin y \<and> 0 \<le> y \<and> y \<le> 255 \<and> \<bar>y - x\<bar> \<le> 1 / 2 ^ 46"
proof (cases "x = 0")
  case True
  then show ?thesis by (simp add: to_double_def)
next
  case False
  with assms have pos: "0 < x" by simp
  define e where "e = max (floor_log2 x) (- 1022)"
  define k where "k = nat (52 - e)"
  define u :: rat where "u = 2 powi (e - 52)"
  define m where "m = round_half_even (x / u)"
  have e7: "e \<le> 7" using floor_log2_le[OF pos assms(2)] by (simp add: e_def)
  then have ek: "e - 52 = - int k" by (simp add: k_def)
  have k45: "45 \<le> k" using e7 by (simp add: k_def)
  have u: "u = 1 / 2 ^ k" unfolding u_def ek by (simp add: power_int_minus field_simps)
  have upos: "0 < u" by (simp add: u)
  have "x / u \<le> of_int (255 * 2 ^ k)" using assms(2) by (simp add: u)
  then have mle: "m \<le> 255 * 2 ^ k" unfolding m_def by (rule round_half_even_le)
  have m0: "0 \<le> m" unfolding m_def using assms(1) upos by (intro round_half_even_nonneg) simp
  have "of_int m * u \<le> of_int (255 * 2 ^ k) * u" using mle upos
    by (intro mult_right_mono) (simp_all del: of_int_mult of_int_power)
  also have "\<dots> = 255" by (simp add: u)
  finally have y255: "of_int m * u \<le> 255" .
  have y0: "0 \<le> of_int m * u" using m0 upos by simp
  have "(255::rat) < 2 powi 1024" by simp
  with y255 have small: "\<not> 2 powi 1024 \<le> of_int m * u" by linarith
  have "of_int m * u - x = (of_int m - x / u) * u"
    using upos by (simp add: field_simps)
  then have "\<bar>of_int m * u - x\<bar> = \<bar>of_int m - x / u\<bar> * u"
    using upos by (simp add: abs_mult)
  also have "\<dots> \<le> 1 / 2 * u"
    unfolding m_def using upos by (intro mult_right_mono round_half_even_error) simp
  also have "\<dots> = 1 / 2 ^ Suc k" by (simp add: u)
  also have "\<dots> \<le> 1 / 2 ^ 46"
    using k45 by (intro divide_left_mono power_increasing) simp_all
  finally have err: "\<bar>of_int m * u - x\<bar> \<le> 1 / 2 ^ 46" .
  have "to_double x = Fin (of_int m * u)"
    using pos small by (simp add: to_double_def Let_def e_def[symmetric] u_def[symmetric] m_def[symmetric])
  with y255 y0 err show ?thesis by blast
qed

lemma Math_round_channel:
  assumes "0 \<le> v" and "v \<le> 1"
  shows "\<exists>n. Math_round (times255 (Fin v)) = Fin (int n) \<and> n \<le> 255 \<and>
           \<bar>of_nat n - 255 * v\<bar> \<le> 1 / 2 + 1 / 2 ^ 46"
proof -
  have "0 \<le> v * 255" "v * 255 \<le> 255" using assms by simp_all
  then obtain y where y: "to_double (v * 255) = Fin y" "0 \<le> y" "y \<le> 255"
      "\<bar>y - v * 255\<bar> \<le> 1 / 2 ^ 46"
    using to_double_unit by blast
  define i where "i = \<lfloor>y + 1 / 2\<rfloor>"
  have i0: "0 \<le> i" unfolding i_def using y(2) by simp
  have i255: "i \<le> 255" unfolding i_def using y(3) by (simp add: floor_le_iff)
  have r: "Math_round (times255 (Fin v)) = Fin i" using y(1) by (simp add: i_def)
  define d :: rat where "d = 1 / 2 ^ 46"
  have "\<bar>of_int i - y\<bar> \<le> 1 / 2" unfolding i_def by linarith
  moreover have "\<bar>y - 255 * v\<bar> \<le> d" using y(4) by (simp only: d_def mult.commute)
  ultimately have "\<bar>of_int i - 255 * v\<bar> \<le> 1 / 2 + d" by linarith
  then have "\<bar>of_int i - 255 * v\<bar> \<le> 1 / 2 + 1 / 2 ^ 46" by (simp only: d_def)
  moreover have "(of_nat (nat i) :: rat) = of_int i" using i0 by simp
  ultimately have "\<bar>of_nat (nat i) - 255 * v\<bar> \<le> 1 / 2 + 1 / 2 ^ 46" by (simp only:)
  then have "Math_round (times255 (Fin v)) = Fin (int (nat i)) \<and> nat i \<le> 255 \<and>
      \<bar>of_nat (nat i) - 255 * v\<bar> \<le> 1 / 2 + 1 / 2 ^ 46"
    using i0 i255 r by simp
  then show ?thesis by blast
qed

lemma hex_digits_byte:
  "n \<le> 255 \<Longrightarrow> hex_digits n = (if n < 16 then [hex_digit n] else [hex_digit (n div 16), hex_digit (n mod 16)])"
  by (subst hex_digits.simps) (simp add: less_mult_imp_div_less)

lemma toUpperCase_hex_digit:
  "d < 16 \<Longrightarrow> toUpperCase [hex_digit d] = [upper_hex_digit d]"
  by (auto simp: toUpperCase_def hex_digit_def upper_hex_digit_def)

lemma toUpperCase_append: "toUpperCase (s @ t) = toUpperCase s @ toUpperCase t"
  by (simp add: toUpperCase_def)

lemma toHex_channel:
  assumes "in_unit_interval v"
  shows "Math_round (times255 v) = Fin (int (channel_value v))" "channel_value v \<le> 255"
    "toUpperCase (toHex v) = two_hex_digits (channel_value v)"
    "\<forall>x. v = Fin x \<longrightarrow> \<bar>of_nat (channel_value v) - 255 * x\<bar> \<le> 1 / 2 + 1 / 2 ^ 46"
proof -
  from assms obtain x where v: "v = Fin x" "0 \<le> x" "x \<le> 1"
    by (cases v) (auto simp: in_unit_interval_def)
  then obtain n where n: "Math_round (times255 v) = Fin (int n)" "n \<le> 255"
      "\<bar>of_nat n - 255 * x\<bar> \<le> 1 / 2 + 1 / 2 ^ 46"
    using Math_round_channel by blast
  then have cv: "channel_value v = n" by (simp add: channel_value_def)
  show "Math_round (times255 v) = Fin (int (channel_value v))" "channel_value v \<le> 255"
    using n cv by simp_all
  show "\<forall>x. v = Fin x \<longrightarrow> \<bar>of_nat (channel_value v) - 255 * x\<bar> \<le> 1 / 2 + 1 / 2 ^ 46"
  proof (intro allI impI)
    fix x' assume "v = Fin x'"
    with v(1) have "x' = x" by simp
    with n(3) show "\<bar>of_nat (channel_value v) - 255 * x'\<bar> \<le> 1 / 2 + 1 / 2 ^ 46"
      by (simp only: cv)
  qed
  have "toHex v = [hex_digit (n div 16), hex_digit (n mod 16)]"
    using n by (simp add: toHex_def hex_digits_byte hex_digit_def str_def)
  moreover have "n div 16 < 16" using n(2) by (simp add: less_mult_imp_div_less)
  ultimately show "toUpperCase (toHex v) = two_hex_digits (channel_value v)"
    using toUpperCase_hex_digit[of "n div 16"] toUpperCase_hex_digit[of "n mod 16"]
      toUpperCase_append[of "[hex_digit (n div 16)]" "[hex_digit (n mod 16)]"]
    by (simp add: cv two_hex_digits_def)
qed

section \<open>Evaluation of the colour encoding\<close>

lemma to_double_255: "to_double 255 = Fin 255"
proof -
  have "floor_log2 255 = 7" by (rule floor_log2_eq) simp_all
  then show ?thesis by (simp add: to_double_def round_half_even_def power_int_minus)
qed

lemma to_double_half: "to_double (255 / 2) = Fin (255 / 2)"
proof -
  have "floor_log2 (255 / 2) = 6" by (rule floor_log2_eq) simp_all
  then show ?thesis by (simp add: to_double_def round_half_even_def power_int_minus)
qed

lemma to_double_quarter: "to_double (255 / 4) = Fin (255 / 4)"
proof -
  have "floor_log2 (255 / 4) = 5" by (rule floor_log2_eq) simp_all
  then show ?thesis by (simp add: to_double_def round_half_even_def power_int_minus)
qed

lemma to_double_three_quarters: "to_double (765 / 4) = Fin (765 / 4)"
proof -
  have "floor_log2 (765 / 4) = 7" by (rule floor_log2_eq) simp_all
  then show ?thesis by (simp add: to_double_def round_half_even_def power_int_minus)
qed

lemma channel_valueI:
  "times255 v = Fin y \<Longrightarrow> of_nat n \<le> y + 1 / 2 \<Longrightarrow> y + 1 / 2 < of_nat n + 1 \<Longrightarrow> channel_value v = n"
proof -
  assume a: "times255 v = Fin y" "of_nat n \<le> y + 1 / 2" "y + 1 / 2 < of_nat n + 1"
  have "\<lfloor>y + 1 / 2\<rfloor> = int n" using a(2,3) by (intro floor_unique) simp_all
  with a(1) show ?thesis by (simp add: channel_value_def)
qed

lemma channel_value_0: "channel_value (Fin 0) = 0"
  by (rule channel_valueI[where y = 0]) (simp_all add: to_double_def)

lemma channel_value_1: "channel_value (Fin 1) = 255"
  by (rule channel_valueI[where y = 255]) (simp_all add: to_double_255)

lemma channel_value_half: "channel_value (Fin (1 / 2)) = 128"
  by (rule channel_valueI[where y = "255 / 2"]) (simp_all add: to_double_half)

lemma channel_value_quarter: "channel_value (Fin (1 / 4)) = 64"
  by (rule channel_valueI[where y = "255 / 4"]) (simp_all add: to_double_quarter)

lemma channel_value_three_quarters: "channel_value (Fin (3 / 4)) = 191"
  by (rule channel_valueI[where y = "765 / 4"]) (simp_all add: to_double_three_quarters)

lemma rgbaToHex_unit:
  assumes "in_unit_interval (rgba_r c)" "in_unit_interval (rgba_g c)" "in_unit_interval (rgba_b c)"
    and "\<And>alpha. rgba_a c = Some alpha \<Longrightarrow> in_unit_interval alpha"
  shows "rgbaToHex c =
           str ''#'' @ two_hex_digits (channel_value (rgba_r c))
             @ two_hex_digits (channel_value (rgba_g c))
             @ two_hex_digits (channel_value (rgba_b c))
             @ (case rgba_a c of
                  None \<Rightarrow> []
                | Some alpha \<Rightarrow> if less_than_1 alpha then two_hex_digits (channel_value alpha) else [])"
proof -
  have hash: "toUpperCase (str ''#'') = str ''#''" by (simp add: toUpperCase_def str_def)
  note rgb = toHex_channel(3)[OF assms(1)] toHex_channel(3)[OF assms(2)] toHex_channel(3)[OF assms(3)]
  show ?thesis
  proof (cases "rgba_a c")
    case None
    then show ?thesis by (simp add: rgbaToHex_def toUpperCase_append hash rgb)
  next
    case (Some alpha)
    then have "toUpperCase (toHex alpha) = two_hex_digits (channel_value alpha)"
      using assms(4) by (intro toHex_channel(3)) simp
    with Some show ?thesis by (simp add: rgbaToHex_def toUpperCase_append hash rgb)
  qed
qed

lemma rgbaToHex_opaque_red:
  "rgbaToHex \<lparr>rgba_r = Fin 1, rgba_g = Fin 0, rgba_b = Fin 0, rgba_a = Some (Fin 1)\<rparr> = str ''#FF0000''"
  by (subst rgbaToHex_unit)
     (simp_all add: in_unit_interval_def channel_value_0 channel_value_1 two_hex_digits_def
        upper_hex_digit_def str_def)

lemma rgbaToHex_half_red:
  "rgbaToHex \<lparr>rgba_r = Fin 1, rgba_g = Fin 0, rgba_b = Fin 0, rgba_a = Some (Fin (1 / 2))\<rparr>
     = str ''#FF000080''"
  by (subst rgbaToHex_unit)
     (simp_all add: in_unit_interval_def channel_value_0 channel_value_1 channel_value_half
        two_hex_digits_def upper_hex_digit_def str_def)



section \<open>Evaluation of the resolver on the sample document\<close>






section \<open>A cycle of aliases\<close>







section \<open>Lemmas about the export\<close>


lemma mset_tokens_of_append [simp]:
  "mset (tokens_of (xs @ ys)) = mset (tokens_of xs) + mset (tokens_of ys)"
  by simp








lemma validate_not_found:
  assumes "tid \<notin> coll_id ` set (getLocalVariableCollectionsAsync h) \<or>
           pid \<notin> coll_id ` set (getLocalVariableCollectionsAsync h)"
  shows "validateAndGetCollections h tid pid
           = Inl (Error (str ''Collections not found - please check your collection IDs''))"
proof -
  have "find (\<lambda>c. coll_id c = tid) (getLocalVariableCollectionsAsync h) = None \<or>
        find (\<lambda>c. coll_id c = pid) (getLocalVariableCollectionsAsync h) = None"
    using assms by (auto simp: find_None_iff)
  then show ?thesis
    by (auto simp: validateAndGetCollections_def Let_def split: option.splits)
qed












section \<open>Claims about the token tree\<close>

text \<open>
  C6. Whatever sequence of \<open>insertTokenIntoTree\<close> calls is run from the empty root
  array, in the root array and in the children of every group no two groups have the
  same name. A call whose first folder is \<open>f\<close> appends a new group \<open>f\<close> at the end of
  the level, built from empty children, when the level has no group named \<open>f\<close>; when
  it has one, the first such group is kept in its place and the rest of the call runs
  on its children, nothing else of the level changing.
\<close>

theorem insertTokenIntoTree_unique_groups:
  "unique_groups (foldl (\<lambda>rootArray (folders, tok). insertTokenIntoTree rootArray folders tok) [] calls)
   \<and> (f \<notin> set (group_names level) \<longrightarrow>
        insertTokenIntoTree level (f # fs) tok = level @ [Group f (insertTokenIntoTree [] fs tok)])
   \<and> (f \<in> set (group_names level) \<longrightarrow>
        (\<exists>pre cs post. level = pre @ Group f cs # post \<and> f \<notin> set (group_names pre) \<and>
           insertTokenIntoTree level (f # fs) tok = pre @ Group f (insertTokenIntoTree cs fs tok) # post))"
proof -
  have "unique_groups []" by (simp add: group_names_def)
  then have "unique_groups (foldl (\<lambda>rootArray (folders, tok). insertTokenIntoTree rootArray folders tok) [] calls)"
    by (rule unique_groups_calls)
  moreover have "f \<notin> set (group_names level) \<longrightarrow>
        insertTokenIntoTree level (f # fs) tok = level @ [Group f (insertTokenIntoTree [] fs tok)]"
    by (simp add: descend_absent)
  moreover have "f \<in> set (group_names level) \<longrightarrow>
        (\<exists>pre cs post. level = pre @ Group f cs # post \<and> f \<notin> set (group_names pre) \<and>
           insertTokenIntoTree level (f # fs) tok = pre @ Group f (insertTokenIntoTree cs fs tok) # post)"
    using descend_present[of f level "\<lambda>children. insertTokenIntoTree children fs tok"] by simp
  ultimately show ?thesis by blast
qed

theorem insertTokenIntoTree_unique_groups_witness:
  "unique_groups (foldl (\<lambda>rootArray (folders, tok). insertTokenIntoTree rootArray folders tok) []
      sample_calls)
   \<and> insertTokenIntoTree [] [str ''Colors'', str ''Border''] (sample_token ''primary'' ''p'')
       = [Group (str ''Colors'') [Group (str ''Border'') [Token (sample_token ''primary'' ''p'')]]]
   \<and> (\<exists>pre cs post.
        [Token (sample_token ''zebra'' ''zebra''), Group (str ''Colors'') []]
          = pre @ Group (str ''Colors'') cs # post \<and>
        str ''Colors'' \<notin> set (group_names pre) \<and>
        insertTokenIntoTree [Token (sample_token ''zebra'' ''zebra''), Group (str ''Colors'') []]
          [str ''Colors''] (sample_token ''primary'' ''p'')
          = pre @ Group (str ''Colors'') (insertTokenIntoTree cs [] (sample_token ''primary'' ''p'')) # post)"
proof -
  let ?t = "sample_token ''primary'' ''p''"
  let ?level = "[Token (sample_token ''zebra'' ''zebra''), Group (str ''Colors'') []]"
  have absent: "str ''Colors'' \<notin> set (group_names [])"
    by (simp add: group_names_def)
  have present: "str ''Colors'' \<in> set (group_names ?level)"
    by (simp add: group_names_def)
  from insertTokenIntoTree_unique_groups[of sample_calls "str ''Colors''" "[]" "[str ''Border'']" ?t]
    absent
  have 1: "unique_groups (foldl (\<lambda>rootArray (folders, tok). insertTokenIntoTree rootArray folders tok) []
      sample_calls)"
    and 2: "insertTokenIntoTree [] [str ''Colors'', str ''Border''] ?t
       = [] @ [Group (str ''Colors'') (insertTokenIntoTree [] [str ''Border''] ?t)]"
    by blast+
  from insertTokenIntoTree_unique_groups[of sample_calls "str ''Colors''" ?level "[]" ?t] present
  have 3: "\<exists>pre cs post. ?level = pre @ Group (str ''Colors'') cs # post \<and>
        str ''Colors'' \<notin> set (group_names pre) \<and>
        insertTokenIntoTree ?level [str ''Colors''] ?t
          = pre @ Group (str ''Colors'') (insertTokenIntoTree cs [] ?t) # post"
    by blast
  from 2 have "insertTokenIntoTree [] [str ''Colors'', str ''Border''] ?t
       = [Group (str ''Colors'') [Group (str ''Border'') [Token ?t]]]"
    by simp
  with 1 3 show ?thesis by blast
qed

text \<open>
  C2. For a host whose \<open>localeCompare\<close> is a consistent comparison function, the
  output of \<open>sortTokensAlphabetically\<close> has, at the top level and in the children of
  every group at every depth, all groups before all tokens, and the names of the
  groups and the names of the tokens each non-decreasing under \<open>localeCompare\<close>.
\<close>

theorem sortTokensAlphabetically_sorted:
  "consistent_comparator localeCompare \<Longrightarrow>
   sorted_forest localeCompare (sortTokensAlphabetically localeCompare items)"
  by (rule sorted_forest_sort)

theorem sortTokensAlphabetically_sorted_witness:
  "consistent_comparator codeUnitCompare \<and>
   sortTokensAlphabetically codeUnitCompare sample_forest = sample_forest_sorted \<and>
   sorted_forest codeUnitCompare sample_forest_sorted"
  using sortTokensAlphabetically_sorted[OF consistent_codeUnitCompare, of sample_forest]
    consistent_codeUnitCompare sort_sample_forest
  by simp

text \<open>
  C7. \<open>sortTokensAlphabetically\<close> is idempotent: for a host whose \<open>localeCompare\<close> is a
  consistent comparison function, sorting a sorted forest again changes nothing.
\<close>

theorem sortTokensAlphabetically_idempotent:
  "consistent_comparator localeCompare \<Longrightarrow>
   sortTokensAlphabetically localeCompare (sortTokensAlphabetically localeCompare items)
     = sortTokensAlphabetically localeCompare items"
  by (rule sort_idem)

theorem sortTokensAlphabetically_idempotent_witness:
  "consistent_comparator codeUnitCompare \<and>
   sortTokensAlphabetically codeUnitCompare sample_forest = sample_forest_sorted \<and>
   sortTokensAlphabetically codeUnitCompare sample_forest_sorted = sample_forest_sorted"
  using sortTokensAlphabetically_idempotent[OF consistent_codeUnitCompare, of sample_forest]
    consistent_codeUnitCompare sort_sample_forest
  by simp

section \<open>Claims about the colour encoding\<close>

text \<open>
  C8. For a colour whose channels are between 0 and 1, \<open>rgbaToHex\<close> is \<open>#\<close> followed by
  two upper-case hexadecimal digits for each of red, green and blue, in that order, each
  being the channel times 255, rounded (an integer from 0 to 255, which is the result of
  \<open>Math.round\<close> on the binary64 product and so within \<open>1/2 + 1/2^46\<close> of 255 times the
  channel), followed by the two digits of alpha exactly when alpha is defined and less
  than 1. In particular
  \<open>{r: 1, g: 0, b: 0, a: 1}\<close> gives \<open>#FF0000\<close> and \<open>{r: 1, g: 0, b: 0, a: 0.5}\<close> gives
  \<open>#FF000080\<close>.
\<close>

theorem rgbaToHex_format:
  "(in_unit_interval (rgba_r c) \<and> in_unit_interval (rgba_g c) \<and> in_unit_interval (rgba_b c) \<and>
    (\<forall>alpha. rgba_a c = Some alpha \<longrightarrow> in_unit_interval alpha) \<longrightarrow>
      rgbaToHex c =
        str ''#'' @ two_hex_digits (channel_value (rgba_r c))
          @ two_hex_digits (channel_value (rgba_g c))
          @ two_hex_digits (channel_value (rgba_b c))
          @ (case rgba_a c of
               None \<Rightarrow> []
             | Some alpha \<Rightarrow> if less_than_1 alpha then two_hex_digits (channel_value alpha) else [])
      \<and> (\<forall>v. v \<in> {rgba_r c, rgba_g c, rgba_b c} \<or> rgba_a c = Some v \<longrightarrow>
            Math_round (times255 v) = Fin (int (channel_value v)) \<and> channel_value v \<le> 255 \<and>
            (\<forall>x. v = Fin x \<longrightarrow> \<bar>of_nat (channel_value v) - 255 * x\<bar> \<le> 1 / 2 + 1 / 2 ^ 46)))
   \<and> rgbaToHex \<lparr>rgba_r = Fin 1, rgba_g = Fin 0, rgba_b = Fin 0, rgba_a = Some (Fin 1)\<rparr>
       = str ''#FF0000''
   \<and> rgbaToHex \<lparr>rgba_r = Fin 1, rgba_g = Fin 0, rgba_b = Fin 0, rgba_a = Some (Fin (1 / 2))\<rparr>
       = str ''#FF000080''"
proof -
  have "rgbaToHex c =
        str ''#'' @ two_hex_digits (channel_value (rgba_r c))
          @ two_hex_digits (channel_value (rgba_g c))
          @ two_hex_digits (channel_value (rgba_b c))
          @ (case rgba_a c of
               None \<Rightarrow> []
             | Some alpha \<Rightarrow> if less_than_1 alpha then two_hex_digits (channel_value alpha) else [])
      \<and> (\<forall>v. v \<in> {rgba_r c, rgba_g c, rgba_b c} \<or> rgba_a c = Some v \<longrightarrow>
            Math_round (times255 v) = Fin (int (channel_value v)) \<and> channel_value v \<le> 255 \<and>
            (\<forall>x. v = Fin x \<longrightarrow> \<bar>of_nat (channel_value v) - 255 * x\<bar> \<le> 1 / 2 + 1 / 2 ^ 46))"
    if u: "in_unit_interval (rgba_r c)" "in_unit_interval (rgba_g c)" "in_unit_interval (rgba_b c)"
      "\<forall>alpha. rgba_a c = Some alpha \<longrightarrow> in_unit_interval alpha"
  proof -
    have "in_unit_interval v" if "v \<in> {rgba_r c, rgba_g c, rgba_b c} \<or> rgba_a c = Some v" for v
      using that u by auto
    then have "\<forall>v. v \<in> {rgba_r c, rgba_g c, rgba_b c} \<or> rgba_a c = Some v \<longrightarrow>
            Math_round (times255 v) = Fin (int (channel_value v)) \<and> channel_value v \<le> 255 \<and>
            (\<forall>x. v = Fin x \<longrightarrow> \<bar>of_nat (channel_value v) - 255 * x\<bar> \<le> 1 / 2 + 1 / 2 ^ 46)"
      using toHex_channel(1,2,4) by blast
    moreover have "rgbaToHex c =
        str ''#'' @ two_hex_digits (channel_value (rgba_r c))
          @ two_hex_digits (channel_value (rgba_g c))
          @ two_hex_digits (channel_value (rgba_b c))
          @ (case rgba_a c of
               None \<Rightarrow> []
             | Some alpha \<Rightarrow> if less_than_1 alpha then two_hex_digits (channel_value alpha) else [])"
      using u by (intro rgbaToHex_unit) simp_all
    ultimately show ?thesis by blast
  qed
  then show ?thesis using rgbaToHex_opaque_red rgbaToHex_half_red by blast
qed

theorem rgbaToHex_format_witness:
  "rgbaToHex \<lparr>rgba_r = Fin (1 / 4), rgba_g = Fin (3 / 4), rgba_b = Fin 1, rgba_a = Some (Fin (1 / 2))\<rparr>
     = str ''#40BFFF80''
   \<and> rgbaToHex \<lparr>rgba_r = Fin (1 / 4), rgba_g = Fin (3 / 4), rgba_b = Fin 1, rgba_a = None\<rparr>
     = str ''#40BFFF''
   \<and> Math_round (times255 (Fin (3 / 4))) = Fin 191"
proof -
  let ?c = "\<lparr>rgba_r = Fin (1 / 4), rgba_g = Fin (3 / 4), rgba_b = Fin 1, rgba_a = Some (Fin (1 / 2))\<rparr>"
  let ?d = "\<lparr>rgba_r = Fin (1 / 4), rgba_g = Fin (3 / 4), rgba_b = Fin 1, rgba_a = None\<rparr>"
  have c: "in_unit_interval (rgba_r ?c) \<and> in_unit_interval (rgba_g ?c) \<and> in_unit_interval (rgba_b ?c) \<and>
    (\<forall>alpha. rgba_a ?c = Some alpha \<longrightarrow> in_unit_interval alpha)"
    by (simp add: in_unit_interval_def)
  have d: "in_unit_interval (rgba_r ?d) \<and> in_unit_interval (rgba_g ?d) \<and> in_unit_interval (rgba_b ?d) \<and>
    (\<forall>alpha. rgba_a ?d = Some alpha \<longrightarrow> in_unit_interval alpha)"
    by (simp add: in_unit_interval_def)
  from rgbaToHex_format[of ?c] c
  have 1: "rgbaToHex ?c = str ''#40BFFF80''" and 3: "Math_round (times255 (Fin (3 / 4))) = Fin 191"
    by (simp_all add: channel_value_quarter channel_value_three_quarters channel_value_1
        channel_value_half two_hex_digits_def upper_hex_digit_def str_def)
  from rgbaToHex_format[of ?d] d
  have 2: "rgbaToHex ?d = str ''#40BFFF''"
    by (simp add: channel_value_quarter channel_value_three_quarters channel_value_1
        two_hex_digits_def upper_hex_digit_def str_def)
  from 1 2 3 show ?thesis by blast
qed

section \<open>Claims about the resolver\<close>

text \<open>
  C5. When the value of the variable at the requested mode is an alias whose identifier
  the host resolves to no variable, \<open>resolveColor\<close> returns
  \<open>{ hex: "#FF00FF", primitiveName: "Unresolved" }\<close>; it returns, and throws nothing.
\<close>

theorem resolveColor_unresolved_alias:
  "object_get (valuesByMode variable) mode = Some (VAlias aliasId) \<Longrightarrow>
   getVariableByIdAsync h aliasId = None \<Longrightarrow>
   resolveColor h variable mode primitiveModeId brandModeType =
     Some \<lparr>hex = str ''#FF00FF'', primitiveName = str ''Unresolved''\<rparr>"
  by (subst resolveColor.simps) (simp add: createFallbackResult_def)

theorem resolveColor_unresolved_alias_witness:
  "resolveColor sample_host sample_hidden (str ''1:1'') (str ''2:1'') (Some Dark)
     = Some \<lparr>hex = str ''#FF00FF'', primitiveName = str ''Unresolved''\<rparr>"
proof -
  have "object_get (valuesByMode sample_hidden) (str ''1:1'') = Some (VAlias (str ''VariableID:gone''))"
    by (simp add: object_get_def sample_hidden_def str_def)
  moreover have "getVariableByIdAsync sample_host (str ''VariableID:gone'') = None"
    by (simp add: sample_defs str_def)
  ultimately show ?thesis by (rule resolveColor_unresolved_alias)
qed

text \<open>
  C9. When the variable has no value at the requested mode, or has one that is neither
  an alias nor a colour, \<open>resolveColor\<close> returns \<open>#000000\<close> with \<open>primitiveName\<close>
  \<open>Raw\<close>, not the marker \<open>#FF00FF\<close>.
\<close>

theorem resolveColor_missing_mode_is_black:
  "object_get (valuesByMode variable) mode = value \<Longrightarrow>
   (\<forall>i. value \<noteq> Some (VAlias i)) \<Longrightarrow> (\<forall>c. value \<noteq> Some (VColor c)) \<Longrightarrow>
   resolveColor h variable mode primitiveModeId brandModeType =
     Some \<lparr>hex = str ''#000000'', primitiveName = str ''Raw''\<rparr>"
  by (subst resolveColor.simps)
     (auto split: option.splits VariableValue.splits)

theorem resolveColor_missing_mode_is_black_witness:
  "object_get (valuesByMode sample_border) (str ''7:7'') = None
   \<and> resolveColor sample_host sample_border (str ''7:7'') (str ''2:0'') (Some Light)
       = Some \<lparr>hex = str ''#000000'', primitiveName = str ''Raw''\<rparr>
   \<and> object_get (valuesByMode sample_spacing) (str ''1:0'') = Some (VNumber (Fin 4))
   \<and> resolveColor sample_host sample_spacing (str ''1:0'') (str ''2:0'') None
       = Some \<lparr>hex = str ''#000000'', primitiveName = str ''Raw''\<rparr>"
proof -
  have 1: "object_get (valuesByMode sample_border) (str ''7:7'') = None"
    by (simp add: object_get_def sample_border_def str_def)
  have 2: "object_get (valuesByMode sample_spacing) (str ''1:0'') = Some (VNumber (Fin 4))"
    by (simp add: object_get_def sample_spacing_def str_def)
  have "resolveColor sample_host sample_border (str ''7:7'') (str ''2:0'') (Some Light)
       = Some \<lparr>hex = str ''#000000'', primitiveName = str ''Raw''\<rparr>"
    by (rule resolveColor_missing_mode_is_black[OF 1]) simp_all
  moreover have "resolveColor sample_host sample_spacing (str ''1:0'') (str ''2:0'') None
       = Some \<lparr>hex = str ''#000000'', primitiveName = str ''Raw''\<rparr>"
    by (rule resolveColor_missing_mode_is_black[OF 2]) simp_all
  ultimately show ?thesis using 1 2 by blast
qed







section \<open>Claims about the export\<close>

text \<open>
  C3. When the token collection identifier or the primitive collection identifier of the
  configuration is the identifier of no local collection, \<open>exportTokens\<close> returns by
  throwing an error, whatever the host and the configuration are otherwise; it posts no
  \<open>download-json\<close> message; and what it does is the same whatever the variables of the
  document are, none of them being read. When the first notification is made (the
  language of the configuration is not the name of a member of \<open>Object.prototype\<close>, or
  the host accepts \<open>undefined\<close> as a notification), that notification is the only effect,
  the error thrown is \<open>Collections not found - please check your collection IDs\<close>, and
  \<open>handleExportRequest\<close> notifies the user of it.
\<close>

theorem exportTokens_collections_not_found:
  assumes "tokenCollectionId config \<notin> coll_id ` set (getLocalVariableCollectionsAsync h) \<or>
           primitiveCollectionId config \<notin> coll_id ` set (getLocalVariableCollectionsAsync h)"
  shows "(\<exists>effects thrown. exportTokens h config = Some (effects, Inl thrown) \<and>
            (\<forall>exportData. PostMessage (DownloadJson exportData) \<notin> set effects))
         \<and> (\<forall>vs byId.
               exportTokens (h\<lparr>getLocalVariablesAsync := vs, getVariableByIdAsync := byId\<rparr>) config
                 = exportTokens h config)
         \<and> (language config \<notin> set Object_prototype_members \<or> notify_undefined h = None \<longrightarrow>
               exportTokens h config
                 = Some ([Notify (analyzing (translation_of (language config)))],
                         Inl (Error not_found_message))
               \<and> handleExportRequest h currentLang config
                   = Some [Notify (analyzing (translation_of (language config))),
                           Notify (Some (text_plus (exportError (translation_of currentLang))
                                           not_found_message))])"
proof -
  let ?first = "analyzing (translation_of (language config))"
  have v: "validateAndGetCollections h' (tokenCollectionId config) (primitiveCollectionId config)
      = Inl (Error not_found_message)"
    if "getLocalVariableCollectionsAsync h' = getLocalVariableCollectionsAsync h" for h'
    unfolding not_found_message_def using assms that by (intro validate_not_found) simp
  have e: "exportTokens h' config
      = (case figma_notify h ?first of
           Inl thrown \<Rightarrow> Some ([], Inl thrown)
         | Inr started \<Rightarrow> Some ([started], Inl (Error not_found_message)))"
    if "getLocalVariableCollectionsAsync h' = getLocalVariableCollectionsAsync h"
      and "notify_undefined h' = notify_undefined h" for h'
    using that(2)
    by (auto simp: exportTokens_def Let_def v[OF that(1)] figma_notify_def
        split: option.splits sum.splits)
  have here: "exportTokens h config
      = (case figma_notify h ?first of
           Inl thrown \<Rightarrow> Some ([], Inl thrown)
         | Inr started \<Rightarrow> Some ([started], Inl (Error not_found_message)))"
    by (rule e) simp_all
  have n: "figma_notify h ?first = Inr started \<Longrightarrow> started = Notify ?first" for started
    by (auto simp: figma_notify_def split: option.splits)
  have 1: "\<exists>effects thrown. exportTokens h config = Some (effects, Inl thrown) \<and>
            (\<forall>exportData. PostMessage (DownloadJson exportData) \<notin> set effects)"
  proof (cases "figma_notify h ?first")
    case (Inl thrown)
    then show ?thesis by (simp add: here)
  next
    case (Inr started)
    with n have "exportTokens h config = Some ([Notify ?first], Inl (Error not_found_message))"
      by (simp add: here)
    then show ?thesis by simp
  qed
  have 2: "\<forall>vs byId.
               exportTokens (h\<lparr>getLocalVariablesAsync := vs, getVariableByIdAsync := byId\<rparr>) config
                 = exportTokens h config"
    unfolding here by (intro allI e) simp_all
  have 3: "exportTokens h config = Some ([Notify ?first], Inl (Error not_found_message))
      \<and> handleExportRequest h currentLang config
          = Some [Notify ?first,
                  Notify (Some (text_plus (exportError (translation_of currentLang)) not_found_message))]"
    if ok: "language config \<notin> set Object_prototype_members \<or> notify_undefined h = None"
  proof -
    have "?first \<noteq> None \<or> notify_undefined h = None"
      using ok by (auto simp: translation_of_def translations_fr_def translations_en_def)
    then have "figma_notify h ?first = Inr (Notify ?first)"
      by (auto simp: figma_notify_def split: option.splits)
    then have x: "exportTokens h config = Some ([Notify ?first], Inl (Error not_found_message))"
      by (simp add: here)
    then show ?thesis by (simp add: handleExportRequest_def)
  qed
  from 1 2 3 show ?thesis by blast
qed

theorem exportTokens_collections_not_found_witness:
  "primitiveCollectionId sample_config_unknown
      \<notin> coll_id ` set (getLocalVariableCollectionsAsync sample_host)
   \<and> language sample_config_unknown \<notin> set Object_prototype_members
   \<and> exportTokens sample_host sample_config_unknown
       = Some ([Notify (Some (9203 # str '' Analysing...''))],
               Inl (Error (str ''Collections not found - please check your collection IDs'')))
   \<and> handleExportRequest sample_host (str ''fr'') sample_config_unknown
       = Some [Notify (Some (9203 # str '' Analysing...'')),
               Notify (Some (10060 # str '' Erreur d'' @ [39] @ str ''export : ''
                       @ str ''Collections not found - please check your collection IDs''))]
   \<and> handleExportRequest sample_host (str ''constructor'') sample_config_unknown
       = Some [Notify (Some (9203 # str '' Analysing...'')),
               Notify (Some (str ''undefined''
                       @ str ''Collections not found - please check your collection IDs''))]"
proof -
  have u: "primitiveCollectionId sample_config_unknown
      \<notin> coll_id ` set (getLocalVariableCollectionsAsync sample_host)"
    by (simp add: sample_config_unknown_def sample_defs str_def)
  then have unknown: "tokenCollectionId sample_config_unknown
        \<notin> coll_id ` set (getLocalVariableCollectionsAsync sample_host) \<or>
      primitiveCollectionId sample_config_unknown
        \<notin> coll_id ` set (getLocalVariableCollectionsAsync sample_host)"
    by blast
  have en: "language sample_config_unknown = str ''en''"
    by (simp add: language_def sample_config_unknown_def sample_config_def)
  have l: "language sample_config_unknown \<notin> set Object_prototype_members"
    unfolding en by (simp add: Object_prototype_members_def str_def)
  then have ok: "language sample_config_unknown \<notin> set Object_prototype_members \<or>
      notify_undefined sample_host = None"
    by blast
  have a: "analyzing (translation_of (language sample_config_unknown))
      = Some (9203 # str '' Analysing...'')"
    unfolding en by (simp add: translation_of_def translations_en_def str_def)
  have f: "text_plus (exportError (translation_of (str ''fr''))) not_found_message
      = 10060 # str '' Erreur d'' @ [39] @ str ''export : ''
          @ str ''Collections not found - please check your collection IDs''"
    by (simp add: translation_of_def translations_fr_def text_plus_def not_found_message_def)
  have c: "text_plus (exportError (translation_of (str ''constructor''))) not_found_message
      = str ''undefined'' @ str ''Collections not found - please check your collection IDs''"
    by (simp add: translation_of_def Object_prototype_members_def text_plus_def not_found_message_def)
       (simp add: str_def)
  from exportTokens_collections_not_found[OF unknown, of "str ''fr''"] ok
  have 1: "exportTokens sample_host sample_config_unknown
       = Some ([Notify (Some (9203 # str '' Analysing...''))],
               Inl (Error (str ''Collections not found - please check your collection IDs'')))"
    and 2: "handleExportRequest sample_host (str ''fr'') sample_config_unknown
       = Some [Notify (Some (9203 # str '' Analysing...'')),
               Notify (Some (10060 # str '' Erreur d'' @ [39] @ str ''export : ''
                       @ str ''Collections not found - please check your collection IDs''))]"
    by (simp_all add: a f) (simp add: not_found_message_def)
  from exportTokens_collections_not_found[OF unknown, of "str ''constructor''"] ok
  have 3: "handleExportRequest sample_host (str ''constructor'') sample_config_unknown
       = Some [Notify (Some (9203 # str '' Analysing...'')),
               Notify (Some (str ''undefined''
                       @ str ''Collections not found - please check your collection IDs''))]"
    by (simp add: a c)
  from u l 1 2 3 show ?thesis by blast
qed



end
